theory Spec2Isabelle
  imports Complex_Main "HOL-Library.Word"
begin

section \<open>Double-precision values\<close>

text \<open>
  The driver computes on C++ \<^verbatim>\<open>double\<close>s and uses not-a-number as the "unset" marker of
  a position target or a gain, and plus/minus infinity as the "no limit" marker.  The
  model keeps the four kinds of value apart and follows IEEE 754 wherever a special value
  is involved (comparisons with NaN are false, \<open>inf - inf\<close> and \<open>0 * inf\<close> are NaN).
  On two finite values an operation returns the exact real result: rounding, overflow of
  a finite result to infinity and the sign of zero are not modelled.
\<close>

datatype double = NaN | MInf | Fin real | PInf

fun isnan :: "double \<Rightarrow> bool" where
  "isnan NaN = True"
| "isnan _ = False"

fun isfinite :: "double \<Rightarrow> bool" where
  "isfinite (Fin _) = True"
| "isfinite _ = False"

text \<open>\<open>dlt a b\<close> is the C++ comparison \<^verbatim>\<open>a < b\<close>.\<close>

fun dlt :: "double \<Rightarrow> double \<Rightarrow> bool" where
  "dlt NaN _ = False"
| "dlt _ NaN = False"
| "dlt MInf MInf = False"
| "dlt MInf _ = True"
| "dlt (Fin x) (Fin y) = (x < y)"
| "dlt (Fin _) PInf = True"
| "dlt (Fin _) MInf = False"
| "dlt PInf _ = False"

text \<open>\<open>dgt a b\<close> is \<^verbatim>\<open>a > b\<close>, \<open>dle a b\<close> is \<^verbatim>\<open>a <= b\<close>.\<close>

definition dgt :: "double \<Rightarrow> double \<Rightarrow> bool" where
  "dgt a b = dlt b a"

fun dle :: "double \<Rightarrow> double \<Rightarrow> bool" where
  "dle NaN _ = False"
| "dle _ NaN = False"
| "dle MInf _ = True"
| "dle (Fin x) (Fin y) = (x \<le> y)"
| "dle (Fin _) PInf = True"
| "dle (Fin _) MInf = False"
| "dle PInf PInf = True"
| "dle PInf _ = False"

fun dneg :: "double \<Rightarrow> double" where
  "dneg NaN = NaN"
| "dneg MInf = PInf"
| "dneg (Fin x) = Fin (- x)"
| "dneg PInf = MInf"

fun dabs :: "double \<Rightarrow> double" where
  "dabs NaN = NaN"
| "dabs MInf = PInf"
| "dabs (Fin x) = Fin \<bar>x\<bar>"
| "dabs PInf = PInf"

fun dadd :: "double \<Rightarrow> double \<Rightarrow> double" where
  "dadd NaN _ = NaN"
| "dadd _ NaN = NaN"
| "dadd PInf MInf = NaN"
| "dadd MInf PInf = NaN"
| "dadd PInf _ = PInf"
| "dadd _ PInf = PInf"
| "dadd MInf _ = MInf"
| "dadd _ MInf = MInf"
| "dadd (Fin x) (Fin y) = Fin (x + y)"

definition dsub :: "double \<Rightarrow> double \<Rightarrow> double" where
  "dsub a b = dadd a (dneg b)"

text \<open>The sign of a value that is not NaN: \<open>-1\<close>, \<open>0\<close> or \<open>1\<close>.\<close>

fun dsgn :: "double \<Rightarrow> int" where
  "dsgn NaN = 0"
| "dsgn MInf = - 1"
| "dsgn (Fin x) = (if x < 0 then - 1 else if x = 0 then 0 else 1)"
| "dsgn PInf = 1"

fun dmul :: "double \<Rightarrow> double \<Rightarrow> double" where
  "dmul NaN _ = NaN"
| "dmul _ NaN = NaN"
| "dmul (Fin x) (Fin y) = Fin (x * y)"
| "dmul a b =
     (if dsgn a * dsgn b = 0 then NaN else if dsgn a * dsgn b < 0 then MInf else PInf)"

fun ddiv :: "double \<Rightarrow> double \<Rightarrow> double" where
  "ddiv NaN _ = NaN"
| "ddiv _ NaN = NaN"
| "ddiv (Fin x) (Fin y) =
     (if y \<noteq> 0 then Fin (x / y)
      else if x = 0 then NaN else if x < 0 then MInf else PInf)"
| "ddiv (Fin _) _ = Fin 0"
| "ddiv a (Fin y) = (if dsgn a * (if y < 0 then - 1 else 1) < 0 then MInf else PInf)"
| "ddiv _ _ = NaN"

text \<open>\<^verbatim>\<open>std::pow(x, k)\<close> for the exponents \<open>3\<close>, \<open>4\<close> and \<open>5\<close> the driver uses.\<close>

fun dpow :: "double \<Rightarrow> nat \<Rightarrow> double" where
  "dpow _ 0 = Fin 1"
| "dpow NaN _ = NaN"
| "dpow (Fin x) k = Fin (x ^ k)"
| "dpow PInf _ = PInf"
| "dpow MInf k = (if even k then PInf else MInf)"

text \<open>\<^verbatim>\<open>std::min(a, b)\<close> is \<^verbatim>\<open>(b < a) ? b : a\<close>, \<^verbatim>\<open>std::max(a, b)\<close> is \<^verbatim>\<open>(a < b) ? b : a\<close>.\<close>

definition dmin :: "double \<Rightarrow> double \<Rightarrow> double" where
  "dmin a b = (if dlt b a then b else a)"

definition dmax :: "double \<Rightarrow> double \<Rightarrow> double" where
  "dmax a b = (if dlt a b then b else a)"

section \<open>Actions and observations\<close>

text \<open>
  A \<^verbatim>\<open>Vector\<close> is a fixed-size Eigen vector of \<^verbatim>\<open>N_JOINTS\<close> doubles, modelled as a list
  of that length; the template parameter \<^verbatim>\<open>N_JOINTS\<close> is an explicit argument.
  The action and observation types come from \<^verbatim>\<open>robot_interfaces\<close>; both have a field
  called \<^verbatim>\<open>position\<close> and \<^verbatim>\<open>torque\<close>, so the observation's fields carry the prefix
  \<open>obs_\<close> here.
\<close>

type_synonym Vector = "double list"

record Action =
  torque :: Vector
  position :: Vector
  position_kp :: Vector
  position_kd :: Vector

record Observation =
  obs_position :: Vector
  obs_velocity :: Vector
  obs_torque :: Vector

text \<open>
  Modelled from the spec: the helper \<^verbatim>\<open>clamp\<close> is declared in a header that is not
  among the sources.  Steps 4 and 6 of the action pipeline (spec 4.2) clamp every
  torque component to \<open>\<plusminus>max_torque\<close>: a component above the upper limit becomes the
  upper limit, one below the lower limit becomes the lower limit.
\<close>

definition clamp_value :: "double \<Rightarrow> double \<Rightarrow> double \<Rightarrow> double" where
  "clamp_value x lower_limit upper_limit = dmax (dmin x upper_limit) lower_limit"

definition clamp :: "Vector \<Rightarrow> double \<Rightarrow> double \<Rightarrow> Vector" where
  "clamp v lower_limit upper_limit = map (\<lambda>x. clamp_value x lower_limit upper_limit) v"

section \<open>The action pipeline: \<^verbatim>\<open>process_desired_action\<close>\<close>

text \<open>
  The lambda \<^verbatim>\<open>set_limit_action\<close> of the limit loop, for joint \<open>i\<close>: discard a torque
  command that pushes further out, set a missing position target to the limit, and
  replace the gains of the joint by the defaults.
\<close>

definition set_limit_action ::
  "Vector \<Rightarrow> Vector \<Rightarrow> nat \<Rightarrow> double \<Rightarrow> double \<Rightarrow> Action \<Rightarrow> Action" where
  "set_limit_action default_position_control_kp default_position_control_kd i sign limit a =
     (let a1 = (if dgt (dmul (torque a ! i) sign) (Fin 0)
                then a\<lparr>torque := (torque a)[i := Fin 0]\<rparr> else a);
          a2 = (if isnan (position a1 ! i)
                then a1\<lparr>position := (position a1)[i := limit]\<rparr> else a1)
      in a2\<lparr>position_kp := (position_kp a2)[i := default_position_control_kp ! i],
             position_kd := (position_kd a2)[i := default_position_control_kd ! i]\<rparr>)"

text \<open>
  One round of the loop over the joints.  First the position command of joint \<open>i\<close> is
  clamped to the allowed range (both comparisons are false on NaN, so NaN is kept), then
  the measured position is checked against the limits.
\<close>

definition clamp_position_command :: "Vector \<Rightarrow> Vector \<Rightarrow> Action \<Rightarrow> nat \<Rightarrow> Action" where
  "clamp_position_command lower_position_limits upper_position_limits a i =
     (if dlt (position a ! i) (lower_position_limits ! i)
      then a\<lparr>position := (position a)[i := lower_position_limits ! i]\<rparr>
      else if dgt (position a ! i) (upper_position_limits ! i)
      then a\<lparr>position := (position a)[i := upper_position_limits ! i]\<rparr>
      else a)"

definition position_limits_joint ::
  "Observation \<Rightarrow> Vector \<Rightarrow> Vector \<Rightarrow> Vector \<Rightarrow> Vector \<Rightarrow> Action \<Rightarrow> nat \<Rightarrow> Action" where
  "position_limits_joint latest_observation default_position_control_kp
       default_position_control_kd lower_position_limits upper_position_limits a i =
     (let a1 = clamp_position_command lower_position_limits upper_position_limits a i
      in if dlt (obs_position latest_observation ! i) (lower_position_limits ! i)
         then set_limit_action default_position_control_kp default_position_control_kd
                i (Fin (- 1)) (lower_position_limits ! i) a1
         else if dgt (obs_position latest_observation ! i) (upper_position_limits ! i)
         then set_limit_action default_position_control_kp default_position_control_kd
                i (Fin 1) (upper_position_limits ! i) a1
         else a1)"

definition position_limits ::
  "nat \<Rightarrow> Observation \<Rightarrow> Vector \<Rightarrow> Vector \<Rightarrow> Vector \<Rightarrow> Vector \<Rightarrow> Action \<Rightarrow> Action" where
  "position_limits N_JOINTS latest_observation default_position_control_kp
       default_position_control_kd lower_position_limits upper_position_limits a =
     foldl (position_limits_joint latest_observation default_position_control_kp
              default_position_control_kd lower_position_limits upper_position_limits)
       a [0..<N_JOINTS]"

text \<open>Eigen's \<^verbatim>\<open>mask.select(a, b)\<close> on the mask \<^verbatim>\<open>v.array().isNaN()\<close>.\<close>

definition isNaN_select :: "Vector \<Rightarrow> Vector \<Rightarrow> Vector \<Rightarrow> Vector" where
  "isNaN_select v then_v else_v =
     map (\<lambda>(m, t, e). if isnan m then t else e) (zip v (zip then_v else_v))"

text \<open>The PD torque of the position controller before the NaN entries are filtered.\<close>

definition pd_torque :: "Vector \<Rightarrow> Vector \<Rightarrow> Vector \<Rightarrow> Observation \<Rightarrow> Vector" where
  "pd_torque kp kd target latest_observation =
     map2 dsub
       (map2 dmul kp (map2 dsub target (obs_position latest_observation)))
       (map2 dmul kd (obs_velocity latest_observation))"

definition position_controller ::
  "Observation \<Rightarrow> Vector \<Rightarrow> Vector \<Rightarrow> Action \<Rightarrow> Action" where
  "position_controller latest_observation default_position_control_kp
       default_position_control_kd a =
     (if \<not> list_all isnan (position a) then
        (let kp = isNaN_select (position_kp a) default_position_control_kp (position_kp a);
             kd = isNaN_select (position_kd a) default_position_control_kd (position_kd a);
             position_control_torque = pd_torque kp kd (position a) latest_observation;
             filtered = map (\<lambda>x. if isnan x then Fin 0 else x) position_control_torque
         in a\<lparr>position_kp := kp, position_kd := kd,
               torque := map2 dadd (torque a) filtered\<rparr>)
      else a)"

definition safety_checks :: "Observation \<Rightarrow> double \<Rightarrow> Vector \<Rightarrow> Action \<Rightarrow> Action" where
  "safety_checks latest_observation max_torque_Nm safety_kd a =
     (let t1 = clamp (torque a) (dneg max_torque_Nm) max_torque_Nm;
          t2 = map2 dsub t1 (map2 dmul safety_kd (obs_velocity latest_observation))
      in a\<lparr>torque := clamp t2 (dneg max_torque_Nm) max_torque_Nm\<rparr>)"

definition process_desired_action ::
  "nat \<Rightarrow> Action \<Rightarrow> Observation \<Rightarrow> double \<Rightarrow> Vector \<Rightarrow> Vector \<Rightarrow> Vector \<Rightarrow> Vector
     \<Rightarrow> Vector \<Rightarrow> Action" where
  "process_desired_action N_JOINTS desired_action latest_observation max_torque_Nm safety_kd
       default_position_control_kp default_position_control_kd
       lower_position_limits upper_position_limits =
     safety_checks latest_observation max_torque_Nm safety_kd
       (position_controller latest_observation default_position_control_kp
          default_position_control_kd
          (position_limits N_JOINTS latest_observation default_position_control_kp
             default_position_control_kd lower_position_limits upper_position_limits
             desired_action))"

section \<open>The driver and its environment\<close>

datatype HomingMethod =
  NONE | NEXT_INDEX | CURRENT_POSITION | ENDSTOP | ENDSTOP_INDEX | ENDSTOP_RELEASE

datatype HomingReturnCode = NOT_INITIALIZED | RUNNING | SUCCEEDED | FAILED

record CalibrationParameters =
  endstop_search_torques_Nm :: Vector
  move_steps :: nat

record PositionControlGains =
  kp :: Vector
  kd :: Vector

record TrajectoryStep =
  target_position_rad :: Vector
  step_move_steps :: nat

record Config =
  homing_method :: HomingMethod
  move_to_position_tolerance_rad :: double
  calibration :: CalibrationParameters
  safety_kd :: Vector
  position_control_gains :: PositionControlGains
  hard_position_limits_lower :: Vector
  hard_position_limits_upper :: Vector
  soft_position_limits_lower :: Vector
  soft_position_limits_upper :: Vector
  home_offset_rad :: Vector
  initial_position_rad :: Vector
  shutdown_trajectory :: "TrajectoryStep list"
  run_duration_logfiles :: "string list"

text \<open>
  What the driver sends to the motor boards and joint modules, in the order sent.
  \<open>PauseMotors\<close> stands for one call of \<^verbatim>\<open>pause_motors()\<close>, which pauses every board.
\<close>

datatype Command =
  SetPositionControlGains Vector Vector
| SendTorques Vector
| PauseMotors
| ExecuteHoming double Vector Vector
| ExecuteHomingAtCurrentPosition Vector

text \<open>The messages the driver prints (\<^verbatim>\<open>rt_printf\<close>, \<^verbatim>\<open>std::cout\<close>, \<^verbatim>\<open>std::cerr\<close>).\<close>

datatype Message =
  Start_homing
| Homing_method_needs_endstop
| Endstop_search_torques_zero
| Reached_end_stop
| Index_search_torques_zero
| Finished_homing
| Failed_to_reach_initial_position
| Failed_to_reach_rest_position
| Write_run_duration_log string
| Failed_to_open_file string

text \<open>
  The driver object: its configuration and constants, the two members the code writes
  (\<^verbatim>\<open>is_initialized_\<close>, \<^verbatim>\<open>action_counter_\<close>), and the record of its effects: how many
  observations were read, the commands sent, the messages printed and the lines appended
  to each file (time stamp and action count).  The members' names lose the trailing
  underscore of the C++ names.  The declaration of \<^verbatim>\<open>action_counter_\<close> is
  not among the sources; the counter is a natural number here.
\<close>

record Driver =
  n_joints :: nat
  config :: Config
  has_endstop :: bool
  max_torque_Nm :: double
  gear_ratio :: double
  is_initialized :: bool
  action_counter :: nat
  reads :: nat
  commands :: "Command list"
  messages :: "Message list"
  files :: "string \<Rightarrow> (int \<times> nat) list"

text \<open>
  The world outside the driver: \<open>sensor k\<close> is what the \<open>k\<close>-th call of
  \<^verbatim>\<open>get_latest_observation()\<close> returns, the two \<open>homing\<close> fields are the return codes of
  the joint modules' homing procedures, \<open>uninitialized_window\<close> is the indeterminate
  initial content of the velocity window of \<^verbatim>\<open>move_until_blocking\<close>, \<open>can_open\<close> tells
  whether a log file opens for appending, and \<open>current_time_sec\<close> is the clock reading
  at shutdown after its cast to \<^verbatim>\<open>int\<close>.
\<close>

record Hardware =
  sensor :: "nat \<Rightarrow> Observation"
  execute_homing :: "double \<Rightarrow> Vector \<Rightarrow> Vector \<Rightarrow> HomingReturnCode"
  execute_homing_at_current_position :: "Vector \<Rightarrow> HomingReturnCode"
  uninitialized_window :: "nat \<Rightarrow> Vector"
  can_open :: "string \<Rightarrow> bool"
  current_time_sec :: int

definition get_latest_observation :: "Hardware \<Rightarrow> Driver \<Rightarrow> Observation \<times> Driver" where
  "get_latest_observation hw s = (sensor hw (reads s), s\<lparr>reads := reads s + 1\<rparr>)"

definition pause_motors :: "Driver \<Rightarrow> Driver" where
  "pause_motors s = s\<lparr>commands := commands s @ [PauseMotors]\<rparr>"

definition print :: "Message \<Rightarrow> Driver \<Rightarrow> Driver" where
  "print m s = s\<lparr>messages := messages s @ [m]\<rparr>"

text \<open>
  The two ways the driver builds an action (\<^verbatim>\<open>robot_interfaces::NJointAction\<close>): from a
  torque vector alone (the implicit conversion used by \<^verbatim>\<open>move_until_blocking\<close>), and
  \<^verbatim>\<open>Action::Position\<close>, a position target with zero torque.  Fields not given are NaN.
\<close>

definition Action_Torque :: "nat \<Rightarrow> Vector \<Rightarrow> Action" where
  "Action_Torque n t =
     \<lparr>torque = t, position = replicate n NaN,
      position_kp = replicate n NaN, position_kd = replicate n NaN\<rparr>"

definition Action_Position :: "nat \<Rightarrow> Vector \<Rightarrow> Action" where
  "Action_Position n p =
     \<lparr>torque = replicate n (Fin 0), position = p,
      position_kp = replicate n NaN, position_kd = replicate n NaN\<rparr>"

text \<open>The sleep until the end of the 1 ms period is not modelled.\<close>

definition apply_action_uninitialized :: "Hardware \<Rightarrow> Action \<Rightarrow> Driver \<Rightarrow> Action \<times> Driver" where
  "apply_action_uninitialized hw desired_action s =
     (let (observation, s1) = get_latest_observation hw s;
          lower_limits = (if is_initialized s1 then soft_position_limits_lower (config s1)
                          else replicate (n_joints s1) MInf);
          upper_limits = (if is_initialized s1 then soft_position_limits_upper (config s1)
                          else replicate (n_joints s1) PInf);
          applied_action =
            process_desired_action (n_joints s1) desired_action observation
              (max_torque_Nm s1) (safety_kd (config s1))
              (kp (position_control_gains (config s1)))
              (kd (position_control_gains (config s1)))
              lower_limits upper_limits
      in (applied_action,
          s1\<lparr>commands := commands s1 @ [SendTorques (torque applied_action)],
             action_counter := action_counter s1 + 1\<rparr>))"

datatype Error = Runtime_error

definition apply_action :: "Hardware \<Rightarrow> Action \<Rightarrow> Driver \<Rightarrow> Error + Action \<times> Driver" where
  "apply_action hw desired_action s =
     (if \<not> is_initialized s then Inl Runtime_error
      else Inr (apply_action_uninitialized hw desired_action s))"

section \<open>\<^verbatim>\<open>move_to_position\<close>\<close>

text \<open>The target of time step \<open>t\<close> on the minimum jerk trajectory.\<close>

definition step_goal :: "Vector \<Rightarrow> Vector \<Rightarrow> nat \<Rightarrow> nat \<Rightarrow> Vector" where
  "step_goal initial_position goal_pos time_steps t =
     (let alpha = ddiv (Fin (real t)) (Fin (real time_steps));
          blend = dadd (dsub (dmul (Fin 10) (dpow alpha 3)) (dmul (Fin 15) (dpow alpha 4)))
                       (dmul (Fin 6) (dpow alpha 5))
      in map2 dadd initial_position
           (map (\<lambda>d. dmul d blend) (map2 dsub goal_pos initial_position)))"

definition move_to_position ::
  "Hardware \<Rightarrow> Vector \<Rightarrow> double \<Rightarrow> nat \<Rightarrow> Driver \<Rightarrow> bool \<times> Driver" where
  "move_to_position hw goal_pos tolerance time_steps s =
     (let (observation, s1) = get_latest_observation hw s;
          initial_position = obs_position observation;
          s2 = foldl (\<lambda>s t. snd (apply_action_uninitialized hw
                        (Action_Position (n_joints s)
                           (step_goal initial_position goal_pos time_steps t)) s))
                 s1 [0..<time_steps];
          (final_observation, s3) = get_latest_observation hw s2;
          position_error = map2 dsub goal_pos (obs_position final_observation);
          reached_goal = list_all (\<lambda>e. dlt (dabs e) tolerance) position_error
      in (reached_goal, s3))"

section \<open>\<^verbatim>\<open>move_until_blocking\<close>\<close>

text \<open>
  Eigen's \<^verbatim>\<open>maxCoeff()\<close>: the first coefficient, replaced by every later one that
  compares greater.  Eigen requires a non-empty vector, and \<^verbatim>\<open>N_JOINTS\<close> is at least one
  on every robot; the value on the empty vector is a placeholder.
\<close>

fun maxCoeff :: "Vector \<Rightarrow> double" where
  "maxCoeff [] = NaN"
| "maxCoeff (x # xs) = foldl (\<lambda>m y. if dgt y m then y else m) x xs"

text \<open>
  The local variables of the loop, with the driver.  \<^verbatim>\<open>running_velocities\<close> is a
  \<^verbatim>\<open>std::vector\<close> of \<^verbatim>\<open>SIZE_VELOCITY_WINDOW\<close> vectors, read and written at
  \<^verbatim>\<open>step_count % SIZE_VELOCITY_WINDOW\<close> only, so a function from the index models it.
\<close>

record Blocking =
  running_velocities :: "nat \<Rightarrow> Vector"
  summed_velocities :: Vector
  step_count :: "32 word"
  driver :: Driver

definition MIN_STEPS_MOVE_TO_END_STOP :: "32 word" where
  "MIN_STEPS_MOVE_TO_END_STOP = 1000"

definition SIZE_VELOCITY_WINDOW :: "32 word" where
  "SIZE_VELOCITY_WINDOW = 100"

definition STOP_VELOCITY :: double where
  "STOP_VELOCITY = Fin (1 / 100)"

definition blocking_condition :: "Blocking \<Rightarrow> bool" where
  "blocking_condition b =
     (step_count b < MIN_STEPS_MOVE_TO_END_STOP \<or>
      dgt (ddiv (maxCoeff (summed_velocities b)) (Fin (real (unat SIZE_VELOCITY_WINDOW))))
          STOP_VELOCITY)"

definition blocking_step :: "Hardware \<Rightarrow> Vector \<Rightarrow> Blocking \<Rightarrow> Blocking" where
  "blocking_step hw torques_Nm b =
     (let (applied, s1) = apply_action_uninitialized hw
                            (Action_Torque (n_joints (driver b)) torques_Nm) (driver b);
          (observation, s2) = get_latest_observation hw s1;
          abs_velocities = map dabs (obs_velocity observation);
          running_index = unat (step_count b mod SIZE_VELOCITY_WINDOW);
          summed = (if step_count b \<ge> SIZE_VELOCITY_WINDOW
                    then map2 dsub (summed_velocities b) (running_velocities b running_index)
                    else summed_velocities b)
      in \<lparr>running_velocities = (running_velocities b)(running_index := abs_velocities),
          summed_velocities = map2 dadd summed abs_velocities,
          step_count = step_count b + 1,
          driver = s2\<rparr>)"

partial_function (option) blocking_loop :: "Hardware \<Rightarrow> Vector \<Rightarrow> Blocking \<Rightarrow> Driver option" where
  "blocking_loop hw torques_Nm b =
     (if blocking_condition b then blocking_loop hw torques_Nm (blocking_step hw torques_Nm b)
      else Some (driver b))"

definition blocking_start :: "Hardware \<Rightarrow> Driver \<Rightarrow> Blocking" where
  "blocking_start hw s =
     \<lparr>running_velocities = uninitialized_window hw,
      summed_velocities = replicate (n_joints s) (Fin 0),
      step_count = 0,
      driver = s\<rparr>"

definition move_until_blocking :: "Hardware \<Rightarrow> Vector \<Rightarrow> Driver \<Rightarrow> Driver option" where
  "move_until_blocking hw torques_Nm s = blocking_loop hw torques_Nm (blocking_start hw s)"

section \<open>\<^verbatim>\<open>homing\<close>\<close>

text \<open>
  Eigen's \<^verbatim>\<open>isZero()\<close> with its default precision for \<^verbatim>\<open>double\<close>: every coefficient
  has an absolute value of at most \<^verbatim>\<open>1e-12\<close>.
\<close>

definition isZero :: "Vector \<Rightarrow> bool" where
  "isZero v = list_all (\<lambda>x. dle (dabs x) (Fin (1 / 10 ^ 12))) v"

text \<open>
  The first \<^verbatim>\<open>switch\<close>: the move to the end stop.  \<open>Some (Inl s)\<close> is the early
  \<^verbatim>\<open>return false\<close> in state \<open>s\<close>, \<open>Some (Inr s)\<close> goes on to the second \<^verbatim>\<open>switch\<close>, and
  \<open>None\<close> is a move that never ends.
\<close>

definition homing_endstop_search :: "Hardware \<Rightarrow> Driver \<Rightarrow> (Driver + Driver) option" where
  "homing_endstop_search hw s =
     (if homing_method (config s) \<in> {ENDSTOP, ENDSTOP_INDEX, ENDSTOP_RELEASE} then
        (if \<not> has_endstop s then Some (Inl (print Homing_method_needs_endstop s))
         else if isZero (endstop_search_torques_Nm (calibration (config s)))
         then Some (Inl (print Endstop_search_torques_zero s))
         else map_option (\<lambda>s1. Inr (print Reached_end_stop s1))
                (move_until_blocking hw (endstop_search_torques_Nm (calibration (config s))) s))
      else Some (Inr s))"

definition INDEX_SEARCH_STEP_SIZE_RAD :: double where
  "INDEX_SEARCH_STEP_SIZE_RAD = Fin (3 / 10000)"

definition INDEX_SEARCH_DISTANCE_LIMIT_RAD :: "Driver \<Rightarrow> double" where
  "INDEX_SEARCH_DISTANCE_LIMIT_RAD s =
     dmul (dmul (ddiv (Fin (3 / 2)) (gear_ratio s)) (Fin 2)) (Fin pi)"

definition index_search_step_sizes :: "Driver \<Rightarrow> Vector" where
  "index_search_step_sizes s =
     map (\<lambda>i. if dgt (endstop_search_torques_Nm (calibration (config s)) ! i) (Fin 0)
              then dmul INDEX_SEARCH_STEP_SIZE_RAD (Fin (- 1))
              else INDEX_SEARCH_STEP_SIZE_RAD)
       [0..<n_joints s]"

definition NUM_ZERO_TORQUE_STEPS :: nat where
  "NUM_ZERO_TORQUE_STEPS = 1000"

text \<open>The end of \<^verbatim>\<open>homing\<close>: the final message and the comparison of the status.\<close>

definition homing_finish :: "HomingReturnCode \<Rightarrow> Driver \<Rightarrow> bool \<times> Driver" where
  "homing_finish homing_status s = (homing_status = SUCCEEDED, print Finished_homing s)"

text \<open>The branch of \<^verbatim>\<open>NEXT_INDEX\<close> and \<^verbatim>\<open>ENDSTOP_INDEX\<close>: home on the encoder index.\<close>

definition home_on_encoder_index :: "Hardware \<Rightarrow> Driver \<Rightarrow> bool \<times> Driver" where
  "home_on_encoder_index hw s =
     (if isZero (endstop_search_torques_Nm (calibration (config s)))
      then (False, print Index_search_torques_zero s)
      else homing_finish
             (execute_homing hw (INDEX_SEARCH_DISTANCE_LIMIT_RAD s)
                (home_offset_rad (config s)) (index_search_step_sizes s))
             (s\<lparr>commands := commands s @
                  [ExecuteHoming (INDEX_SEARCH_DISTANCE_LIMIT_RAD s)
                     (home_offset_rad (config s)) (index_search_step_sizes s)]\<rparr>))"

text \<open>The branch of \<^verbatim>\<open>CURRENT_POSITION\<close> and \<^verbatim>\<open>ENDSTOP\<close>: home at the current position.\<close>

definition home_at_current_position :: "Hardware \<Rightarrow> Driver \<Rightarrow> bool \<times> Driver" where
  "home_at_current_position hw s =
     homing_finish (execute_homing_at_current_position hw (home_offset_rad (config s)))
       (s\<lparr>commands := commands s @
            [ExecuteHomingAtCurrentPosition (home_offset_rad (config s))]\<rparr>)"

text \<open>The zero torque phase of \<^verbatim>\<open>ENDSTOP_RELEASE\<close>.\<close>

definition release_motors :: "Hardware \<Rightarrow> Driver \<Rightarrow> Driver" where
  "release_motors hw s =
     foldl (\<lambda>s i. snd (apply_action_uninitialized hw
                       (Action_Torque (n_joints s) (replicate (n_joints s) (Fin 0))) s))
       s [0..<NUM_ZERO_TORQUE_STEPS]"

text \<open>The second \<^verbatim>\<open>switch\<close>: the homing proper, up to the final \<^verbatim>\<open>return\<close>.\<close>

definition homing_reference :: "Hardware \<Rightarrow> Driver \<Rightarrow> bool \<times> Driver" where
  "homing_reference hw s =
     (case homing_method (config s) of
        NONE \<Rightarrow> homing_finish SUCCEEDED s
      | NEXT_INDEX \<Rightarrow> home_on_encoder_index hw s
      | ENDSTOP_INDEX \<Rightarrow> home_on_encoder_index hw s
      | CURRENT_POSITION \<Rightarrow> home_at_current_position hw s
      | ENDSTOP \<Rightarrow> home_at_current_position hw s
      | ENDSTOP_RELEASE \<Rightarrow> home_at_current_position hw (release_motors hw s))"

definition homing :: "Hardware \<Rightarrow> Driver \<Rightarrow> (bool \<times> Driver) option" where
  "homing hw s =
     (case homing_endstop_search hw (print Start_homing s) of
        None \<Rightarrow> None
      | Some (Inl s1) \<Rightarrow> Some (False, s1)
      | Some (Inr s1) \<Rightarrow> Some (homing_reference hw s1))"

section \<open>\<^verbatim>\<open>_initialize\<close> and \<^verbatim>\<open>shutdown\<close>\<close>

text \<open>The loop of \<^verbatim>\<open>_initialize\<close> over the joints: one more joint of the way point is
  set to its initial position in each round, and the robot moves there.\<close>

definition initial_position_step ::
  "Hardware \<Rightarrow> Vector \<times> bool \<times> Driver \<Rightarrow> nat \<Rightarrow> Vector \<times> bool \<times> Driver" where
  "initial_position_step hw st i =
     (let (waypoint, reached_goal, s) = st;
          waypoint1 = waypoint[i := initial_position_rad (config s) ! i];
          (reached, s1) = move_to_position hw waypoint1
                            (move_to_position_tolerance_rad (config s))
                            (move_steps (calibration (config s))) s
      in (waypoint1, reached, s1))"

definition move_to_initial_position :: "Hardware \<Rightarrow> Driver \<Rightarrow> Driver" where
  "move_to_initial_position hw s =
     (let (observation, s1) = get_latest_observation hw s;
          (waypoint, reached_goal, s2) =
             foldl (initial_position_step hw) (obs_position observation, False, s1)
               [0..<n_joints s1]
      in if \<not> reached_goal then print Failed_to_reach_initial_position s2 else s2)"

text \<open>\<^verbatim>\<open>_initialize\<close>, which \<^verbatim>\<open>initialize\<close> runs in a real-time thread and waits for.\<close>

definition initialize :: "Hardware \<Rightarrow> Driver \<Rightarrow> Driver option" where
  "initialize hw s =
     (let s1 = s\<lparr>commands := commands s @
                  [SetPositionControlGains (kp (position_control_gains (config s)))
                     (kd (position_control_gains (config s)))]\<rparr>
      in case homing hw s1 of
           None \<Rightarrow> None
         | Some (homing_succeeded, s2) \<Rightarrow>
             (let s3 = pause_motors s2;
                  s4 = (if homing_succeeded then move_to_initial_position hw s3 else s3);
                  s5 = pause_motors s4
              in Some (s5\<lparr>is_initialized := homing_succeeded\<rparr>)))"

text \<open>The loop of \<^verbatim>\<open>shutdown\<close> over the trajectory, with its \<^verbatim>\<open>break\<close>.\<close>

fun shutdown_moves :: "Hardware \<Rightarrow> TrajectoryStep list \<Rightarrow> bool \<Rightarrow> Driver \<Rightarrow> bool \<times> Driver" where
  "shutdown_moves hw [] success s = (success, s)"
| "shutdown_moves hw (step # steps) success s =
     (let (reached, s1) = move_to_position hw (target_position_rad step)
                            (move_to_position_tolerance_rad (config s))
                            (step_move_steps step) s;
          success1 = (success \<and> reached)
      in if \<not> success1 then (success1, s1) else shutdown_moves hw steps success1 s1)"

text \<open>One round of the loop over the run duration log files.\<close>

definition write_run_duration_log :: "Hardware \<Rightarrow> int \<Rightarrow> Driver \<Rightarrow> string \<Rightarrow> Driver" where
  "write_run_duration_log hw timestamp s logfile_name =
     (let s1 = print (Write_run_duration_log logfile_name) s
      in if \<not> can_open hw logfile_name then print (Failed_to_open_file logfile_name) s1
         else s1\<lparr>files := (files s1)
                 (logfile_name := files s1 logfile_name @ [(timestamp, action_counter s1)])\<rparr>)"

definition shutdown :: "Hardware \<Rightarrow> Driver \<Rightarrow> Driver" where
  "shutdown hw s =
     (let (success, s1) = shutdown_moves hw (shutdown_trajectory (config s)) True s;
          s2 = pause_motors s1;
          s3 = (if \<not> success then print Failed_to_reach_rest_position s2 else s2);
          timestamp = current_time_sec hw
      in foldl (write_run_duration_log hw timestamp) s3 (run_duration_logfiles (config s3)))"

section \<open>The action pipeline, joint by joint\<close>

text \<open>
  What the loop over the joints does to the entries of joint \<open>i\<close>, as functions of the
  entries alone: \<open>p\<close> is the position command, \<open>t\<close> the torque command, \<open>k\<close> a gain
  and \<open>d\<close> its default, \<open>m\<close> the measured position, \<open>lo\<close> and \<open>hi\<close> the limits.
  The lemmas below show that the loop computes them.
\<close>

definition joint_clamped_position :: "double \<Rightarrow> double \<Rightarrow> double \<Rightarrow> double" where
  "joint_clamped_position p lo hi = (if dlt p lo then lo else if dgt p hi then hi else p)"

definition joint_position :: "double \<Rightarrow> double \<Rightarrow> double \<Rightarrow> double \<Rightarrow> double" where
  "joint_position p m lo hi =
     (let p1 = joint_clamped_position p lo hi
      in if dlt m lo then (if isnan p1 then lo else p1)
         else if dgt m hi then (if isnan p1 then hi else p1)
         else p1)"

definition joint_torque :: "double \<Rightarrow> double \<Rightarrow> double \<Rightarrow> double \<Rightarrow> double" where
  "joint_torque t m lo hi =
     (if dlt m lo then (if dgt (dmul t (Fin (- 1))) (Fin 0) then Fin 0 else t)
      else if dgt m hi then (if dgt (dmul t (Fin 1)) (Fin 0) then Fin 0 else t)
      else t)"

definition joint_gain :: "double \<Rightarrow> double \<Rightarrow> double \<Rightarrow> double \<Rightarrow> double \<Rightarrow> double" where
  "joint_gain k d m lo hi = (if dlt m lo \<or> dgt m hi then d else k)"

text \<open>The PD torque of one joint, and what the position controller adds for it.\<close>

definition joint_pd_torque ::
  "double \<Rightarrow> double \<Rightarrow> double \<Rightarrow> double \<Rightarrow> double \<Rightarrow> double \<Rightarrow> double \<Rightarrow> double" where
  "joint_pd_torque k_p d_p k_d d_d target measured_position measured_velocity =
     dsub (dmul (if isnan k_p then d_p else k_p) (dsub target measured_position))
          (dmul (if isnan k_d then d_d else k_d) measured_velocity)"

definition joint_contribution :: "double \<Rightarrow> double" where
  "joint_contribution c = (if isnan c then Fin 0 else c)"

text \<open>Vectors of an action and of an observation have \<^verbatim>\<open>N_JOINTS\<close> entries.\<close>

definition wf_action :: "nat \<Rightarrow> Action \<Rightarrow> bool" where
  "wf_action n a =
     (length (torque a) = n \<and> length (position a) = n \<and>
      length (position_kp a) = n \<and> length (position_kd a) = n)"

definition wf_observation :: "nat \<Rightarrow> Observation \<Rightarrow> bool" where
  "wf_observation n obs =
     (length (obs_position obs) = n \<and> length (obs_velocity obs) = n \<and>
      length (obs_torque obs) = n)"

section \<open>The effects of the driver, in closed form\<close>

text \<open>
  The action that \<^verbatim>\<open>apply_action_uninitialized\<close> applies for a desired action when the
  \<open>r\<close>-th observation is the latest one.  It depends on the driver's constants and on
  \<^verbatim>\<open>is_initialized_\<close> only.
\<close>

definition applied_action :: "Hardware \<Rightarrow> Driver \<Rightarrow> nat \<Rightarrow> Action \<Rightarrow> Action" where
  "applied_action hw s r desired_action =
     process_desired_action (n_joints s) desired_action (sensor hw r)
       (max_torque_Nm s) (safety_kd (config s))
       (kp (position_control_gains (config s)))
       (kd (position_control_gains (config s)))
       (if is_initialized s then soft_position_limits_lower (config s)
        else replicate (n_joints s) MInf)
       (if is_initialized s then soft_position_limits_upper (config s)
        else replicate (n_joints s) PInf)"

text \<open>The number of torque commands sent so far.\<close>

fun is_SendTorques :: "Command \<Rightarrow> bool" where
  "is_SendTorques (SendTorques _) = True"
| "is_SendTorques _ = False"

definition torques_sent :: "Driver \<Rightarrow> nat" where
  "torques_sent s = length (filter is_SendTorques (commands s))"

text \<open>The torque commands of a loop of \<open>k\<close> rounds that applies the action \<open>g t\<close> in
  round \<open>t\<close>, reading one observation per round from the \<open>r\<close>-th on, with \<open>d\<close> further
  observations read in every round.\<close>

definition torque_commands ::
  "Hardware \<Rightarrow> Driver \<Rightarrow> nat \<Rightarrow> nat \<Rightarrow> (nat \<Rightarrow> Action) \<Rightarrow> nat \<Rightarrow> Command list" where
  "torque_commands hw s r d g k =
     map (\<lambda>t. SendTorques (torque (applied_action hw s (r + (1 + d) * t) (g t)))) [0..<k]"

text \<open>The minimum jerk blend \<open>10\<alpha>\<^sup>3 - 15\<alpha>\<^sup>4 + 6\<alpha>\<^sup>5\<close> on the reals, and the
  targets of \<^verbatim>\<open>move_to_position\<close> as actions.\<close>

definition blend :: "real \<Rightarrow> real" where
  "blend \<alpha> = 10 * \<alpha> ^ 3 - 15 * \<alpha> ^ 4 + 6 * \<alpha> ^ 5"

definition position_targets :: "Hardware \<Rightarrow> Driver \<Rightarrow> Vector \<Rightarrow> nat \<Rightarrow> nat \<Rightarrow> Action" where
  "position_targets hw s goal_pos time_steps t =
     Action_Position (n_joints s)
       (step_goal (obs_position (sensor hw (reads s))) goal_pos time_steps t)"

section \<open>An example robot\<close>

text \<open>
  A robot with two joints that is blocked: every observation reports position and
  velocity zero.  It has an end stop, two way points in its shutdown trajectory and three
  run duration log files, the second of which cannot be opened.
\<close>

definition example_config :: Config where
  "example_config =
     \<lparr>homing_method = NONE,
      move_to_position_tolerance_rad = Fin (1 / 10),
      calibration = \<lparr>endstop_search_torques_Nm = [Fin 0, Fin 0], move_steps = 2\<rparr>,
      safety_kd = [Fin (1 / 2), Fin (1 / 2)],
      position_control_gains = \<lparr>kp = [Fin 1, Fin 1], kd = [Fin 0, Fin 0]\<rparr>,
      hard_position_limits_lower = [Fin (- 2), Fin (- 2)],
      hard_position_limits_upper = [Fin 2, Fin 2],
      soft_position_limits_lower = [Fin (- 1), Fin (- 1)],
      soft_position_limits_upper = [Fin 1, Fin 1],
      home_offset_rad = [Fin 0, Fin 0],
      initial_position_rad = [Fin 0, Fin 0],
      shutdown_trajectory =
        [\<lparr>target_position_rad = [Fin 1, Fin 1], step_move_steps = 2\<rparr>,
         \<lparr>target_position_rad = [Fin 0, Fin 0], step_move_steps = 3\<rparr>],
      run_duration_logfiles = [''a.log'', ''b.log'', ''c.log'']\<rparr>"

definition example_driver :: Driver where
  "example_driver =
     \<lparr>n_joints = 2, config = example_config, has_endstop = True,
      max_torque_Nm = Fin 1, gear_ratio = Fin 9, is_initialized = False,
      action_counter = 0, reads = 0, commands = [], messages = [],
      files = (\<lambda>name. [])\<rparr>"

definition still :: Observation where
  "still = \<lparr>obs_position = [Fin 0, Fin 0], obs_velocity = [Fin 0, Fin 0],
             obs_torque = [Fin 0, Fin 0]\<rparr>"

definition example_hardware :: Hardware where
  "example_hardware =
     \<lparr>sensor = (\<lambda>k. still),
      execute_homing = (\<lambda>distance offset step_sizes. SUCCEEDED),
      execute_homing_at_current_position = (\<lambda>offset. SUCCEEDED),
      uninitialized_window = (\<lambda>k. []),
      can_open = (\<lambda>name. name \<noteq> ''b.log''),
      current_time_sec = 1700000000\<rparr>"

section \<open>Verification of the action pipeline\<close>

subsection \<open>Comparisons\<close>

lemma dlt_NaN_right [simp]: "\<not> dlt x NaN"
  by (cases x) simp_all

lemma dle_NaN_right [simp]: "\<not> dle x NaN"
  by (cases x) simp_all

subsection \<open>The loop over the joints\<close>

lemma foldl_update_nth:
  "foldl (\<lambda>xs i. xs[i := g i (xs ! i)]) xs [0..<n] =
     map (\<lambda>i. if i < n then g i (xs ! i) else xs ! i) [0..<length xs]"
proof (induction n)
  case 0
  show ?case by (simp add: map_nth)
next
  case (Suc n)
  let ?m = "map (\<lambda>i. if i < n then g i (xs ! i) else xs ! i) [0..<length xs]"
  have step: "foldl (\<lambda>xs i. xs[i := g i (xs ! i)]) xs [0..<Suc n] = ?m[n := g n (?m ! n)]"
    by (simp add: Suc del: map_eq_conv)
  have "?m[n := g n (?m ! n)] =
      map (\<lambda>i. if i < Suc n then g i (xs ! i) else xs ! i) [0..<length xs]"
  proof (rule nth_equalityI)
    show "length (?m[n := g n (?m ! n)]) =
        length (map (\<lambda>i. if i < Suc n then g i (xs ! i) else xs ! i) [0..<length xs])"
      by simp
  next
    fix j assume "j < length (?m[n := g n (?m ! n)])"
    then have j: "j < length xs" by simp
    show "?m[n := g n (?m ! n)] ! j =
        map (\<lambda>i. if i < Suc n then g i (xs ! i) else xs ! i) [0..<length xs] ! j"
    proof (cases "j = n")
      case True
      with j show ?thesis by simp
    next
      case False
      with j show ?thesis by (simp add: less_Suc_eq)
    qed
  qed
  with step show ?case by simp
qed

lemma clamp_position_command_position:
  "position (clamp_position_command lo hi a i) =
     (position a)[i := joint_clamped_position (position a ! i) (lo ! i) (hi ! i)]"
  by (simp add: clamp_position_command_def joint_clamped_position_def)

lemma clamp_position_command_others:
  "torque (clamp_position_command lo hi a i) = torque a"
  "position_kp (clamp_position_command lo hi a i) = position_kp a"
  "position_kd (clamp_position_command lo hi a i) = position_kd a"
  by (simp_all add: clamp_position_command_def)

lemma set_limit_action_position:
  "position (set_limit_action dkp dkd i sg limit a) =
     (position a)[i := (if isnan (position a ! i) then limit else position a ! i)]"
  by (simp add: set_limit_action_def Let_def)

lemma position_limits_joint_position:
  "position (position_limits_joint obs dkp dkd lo hi a i) =
     (position a)[i := joint_position (position a ! i) (obs_position obs ! i) (lo ! i) (hi ! i)]"
proof (cases "i < length (position a)")
  case True
  then show ?thesis
    by (simp add: position_limits_joint_def Let_def set_limit_action_position
        clamp_position_command_position joint_position_def)
next
  case False
  then have "\<And>v. (position a)[i := v] = position a"
    by (simp add: list_update_beyond not_less)
  then show ?thesis
    by (simp add: position_limits_joint_def Let_def set_limit_action_position
        clamp_position_command_position)
qed

lemma position_limits_joint_torque:
  "torque (position_limits_joint obs dkp dkd lo hi a i) =
     (torque a)[i := joint_torque (torque a ! i) (obs_position obs ! i) (lo ! i) (hi ! i)]"
  by (simp add: position_limits_joint_def set_limit_action_def joint_torque_def Let_def
      clamp_position_command_others)

lemma position_limits_joint_kp:
  "position_kp (position_limits_joint obs dkp dkd lo hi a i) =
     (position_kp a)[i := joint_gain (position_kp a ! i) (dkp ! i) (obs_position obs ! i) (lo ! i) (hi ! i)]"
  by (simp add: position_limits_joint_def set_limit_action_def joint_gain_def Let_def
      clamp_position_command_others)

lemma position_limits_joint_kd:
  "position_kd (position_limits_joint obs dkp dkd lo hi a i) =
     (position_kd a)[i := joint_gain (position_kd a ! i) (dkd ! i) (obs_position obs ! i) (lo ! i) (hi ! i)]"
  by (simp add: position_limits_joint_def set_limit_action_def joint_gain_def Let_def
      clamp_position_command_others)

lemma position_limits_fields:
  "position (position_limits n obs dkp dkd lo hi a) =
     foldl (\<lambda>xs i. xs[i := joint_position (xs ! i) (obs_position obs ! i) (lo ! i) (hi ! i)])
       (position a) [0..<n]"
  "torque (position_limits n obs dkp dkd lo hi a) =
     foldl (\<lambda>xs i. xs[i := joint_torque (xs ! i) (obs_position obs ! i) (lo ! i) (hi ! i)])
       (torque a) [0..<n]"
  "position_kp (position_limits n obs dkp dkd lo hi a) =
     foldl (\<lambda>xs i. xs[i := joint_gain (xs ! i) (dkp ! i) (obs_position obs ! i) (lo ! i) (hi ! i)])
       (position_kp a) [0..<n]"
  "position_kd (position_limits n obs dkp dkd lo hi a) =
     foldl (\<lambda>xs i. xs[i := joint_gain (xs ! i) (dkd ! i) (obs_position obs ! i) (lo ! i) (hi ! i)])
       (position_kd a) [0..<n]"
  unfolding position_limits_def
  by (induction n)
     (simp_all add: position_limits_joint_position position_limits_joint_torque
        position_limits_joint_kp position_limits_joint_kd)

lemmas position_limits_nth_rules =
  foldl_update_nth [where g = "\<lambda>i v. joint_position v (obs_position obs ! i) (lo ! i) (hi ! i)"]
  foldl_update_nth [where g = "\<lambda>i v. joint_torque v (obs_position obs ! i) (lo ! i) (hi ! i)"]
  foldl_update_nth [where g = "\<lambda>i v. joint_gain v (d ! i) (obs_position obs ! i) (lo ! i) (hi ! i)"]
  for obs lo hi d

lemma position_limits_length:
  "length (position (position_limits n obs dkp dkd lo hi a)) = length (position a)"
  "length (torque (position_limits n obs dkp dkd lo hi a)) = length (torque a)"
  "length (position_kp (position_limits n obs dkp dkd lo hi a)) = length (position_kp a)"
  "length (position_kd (position_limits n obs dkp dkd lo hi a)) = length (position_kd a)"
  by (simp_all add: position_limits_fields position_limits_nth_rules)

lemma position_limits_position_nth:
  "i < n \<Longrightarrow> i < length (position a) \<Longrightarrow>
   position (position_limits n obs dkp dkd lo hi a) ! i =
     joint_position (position a ! i) (obs_position obs ! i) (lo ! i) (hi ! i)"
  by (simp add: position_limits_fields position_limits_nth_rules)

lemma position_limits_torque_nth:
  "i < n \<Longrightarrow> i < length (torque a) \<Longrightarrow>
   torque (position_limits n obs dkp dkd lo hi a) ! i =
     joint_torque (torque a ! i) (obs_position obs ! i) (lo ! i) (hi ! i)"
  by (simp add: position_limits_fields position_limits_nth_rules)

lemma position_limits_kp_nth:
  "i < n \<Longrightarrow> i < length (position_kp a) \<Longrightarrow>
   position_kp (position_limits n obs dkp dkd lo hi a) ! i =
     joint_gain (position_kp a ! i) (dkp ! i) (obs_position obs ! i) (lo ! i) (hi ! i)"
  by (simp add: position_limits_fields position_limits_nth_rules)

lemma position_limits_kd_nth:
  "i < n \<Longrightarrow> i < length (position_kd a) \<Longrightarrow>
   position_kd (position_limits n obs dkp dkd lo hi a) ! i =
     joint_gain (position_kd a ! i) (dkd ! i) (obs_position obs ! i) (lo ! i) (hi ! i)"
  by (simp add: position_limits_fields position_limits_nth_rules)

subsection \<open>The position controller and the safety checks\<close>

lemma position_controller_position:
  "position (position_controller obs dkp dkd a) = position a"
  by (simp add: position_controller_def Let_def)

lemma safety_checks_position:
  "position (safety_checks obs mx skd a) = position a"
  by (simp add: safety_checks_def Let_def)

lemma process_desired_action_position:
  "position (process_desired_action n d obs mx skd dkp dkd lo hi) =
     position (position_limits n obs dkp dkd lo hi d)"
  by (simp add: process_desired_action_def safety_checks_position position_controller_position)

lemma safety_checks_torque_nth:
  "i < length (torque a) \<Longrightarrow> i < length skd \<Longrightarrow> i < length (obs_velocity obs) \<Longrightarrow>
   torque (safety_checks obs mx skd a) ! i =
     clamp_value (dsub (clamp_value (torque a ! i) (dneg mx) mx)
                    (dmul (skd ! i) (obs_velocity obs ! i))) (dneg mx) mx"
  by (simp add: safety_checks_def Let_def clamp_def)

lemma position_controller_torque_nth:
  assumes "i < length (torque a)" "i < length (position a)" "i < length (position_kp a)"
    "i < length (position_kd a)" "i < length dkp" "i < length dkd"
    "i < length (obs_position obs)" "i < length (obs_velocity obs)"
  shows "torque (position_controller obs dkp dkd a) ! i =
     (if list_all isnan (position a) then torque a ! i
      else dadd (torque a ! i)
             (joint_contribution
                (joint_pd_torque (position_kp a ! i) (dkp ! i) (position_kd a ! i) (dkd ! i)
                   (position a ! i) (obs_position obs ! i) (obs_velocity obs ! i))))"
  using assms
  by (simp add: position_controller_def Let_def pd_torque_def isNaN_select_def
      joint_contribution_def joint_pd_torque_def)

subsection \<open>The position command\<close>

lemma joint_clamped_position_bounds:
  "\<not> isnan p \<Longrightarrow> dle lo hi \<Longrightarrow>
   \<not> isnan (joint_clamped_position p lo hi) \<and>
   dle lo (joint_clamped_position p lo hi) \<and> dle (joint_clamped_position p lo hi) hi"
  by (cases p; cases lo; cases hi) (auto simp: joint_clamped_position_def dgt_def)

lemma joint_position_set:
  "\<not> isnan p \<Longrightarrow> dle lo hi \<Longrightarrow> joint_position p m lo hi = joint_clamped_position p lo hi"
  using joint_clamped_position_bounds [of p lo hi]
  by (simp add: joint_position_def Let_def)

lemma clamp_position_command_NaN:
  "clamp_position_command lo hi (a\<lparr>position := (position a)[i := NaN]\<rparr>) i =
     a\<lparr>position := (position a)[i := NaN]\<rparr>"
  by (cases "i < length (position a)")
     (simp_all add: clamp_position_command_def dgt_def list_update_beyond not_less)

text \<open>
  Claim C2.  For a joint whose desired position target is set (not NaN) and whose limits
  form an interval, the position of the action returned by \<^verbatim>\<open>process_desired_action\<close>
  lies within the limits: it is the target clamped to the nearest bound, the value the
  clamp step at the start of the loop computes, whatever the rest of the pipeline does.
  A NaN target passes through the clamp step unchanged.
\<close>

theorem position_command_within_limits:
  assumes "i < N_JOINTS" and "length (position desired_action) = N_JOINTS"
    and "\<not> isnan (position desired_action ! i)"
    and "dle (lower_position_limits ! i) (upper_position_limits ! i)"
  shows "dle (lower_position_limits ! i)
           (position (process_desired_action N_JOINTS desired_action latest_observation
              max_torque safety_gains default_kp default_kd
              lower_position_limits upper_position_limits) ! i) \<and>
         dle (position (process_desired_action N_JOINTS desired_action latest_observation
              max_torque safety_gains default_kp default_kd
              lower_position_limits upper_position_limits) ! i)
           (upper_position_limits ! i) \<and>
         position (process_desired_action N_JOINTS desired_action latest_observation
              max_torque safety_gains default_kp default_kd
              lower_position_limits upper_position_limits) ! i =
           (if dlt (position desired_action ! i) (lower_position_limits ! i)
            then lower_position_limits ! i
            else if dgt (position desired_action ! i) (upper_position_limits ! i)
            then upper_position_limits ! i
            else position desired_action ! i) \<and>
         position (process_desired_action N_JOINTS desired_action latest_observation
              max_torque safety_gains default_kp default_kd
              lower_position_limits upper_position_limits) ! i =
           position (clamp_position_command lower_position_limits upper_position_limits
              desired_action i) ! i \<and>
         clamp_position_command lower_position_limits upper_position_limits
             (desired_action\<lparr>position := (position desired_action)[i := NaN]\<rparr>) i =
           desired_action\<lparr>position := (position desired_action)[i := NaN]\<rparr>"
proof -
  let ?p = "position desired_action ! i"
  let ?lo = "lower_position_limits ! i"
  let ?hi = "upper_position_limits ! i"
  let ?r = "position (process_desired_action N_JOINTS desired_action latest_observation
              max_torque safety_gains default_kp default_kd
              lower_position_limits upper_position_limits) ! i"
  have r: "?r = joint_clamped_position ?p ?lo ?hi"
    using assms
    by (simp add: process_desired_action_position position_limits_position_nth
        joint_position_set)
  have b: "dle ?lo (joint_clamped_position ?p ?lo ?hi) \<and> dle (joint_clamped_position ?p ?lo ?hi) ?hi"
    using joint_clamped_position_bounds [OF assms(3,4)] by simp
  have c: "position (clamp_position_command lower_position_limits upper_position_limits
              desired_action i) ! i = joint_clamped_position ?p ?lo ?hi"
    using assms(1,2) by (simp add: clamp_position_command_position)
  show ?thesis
    using b c
    by (simp only: r clamp_position_command_NaN) (simp add: joint_clamped_position_def)
qed

theorem position_command_within_limits_witness:
  "dle (Fin (- 1)) (Fin 1) \<and>
   position (process_desired_action 2
      \<lparr>torque = [Fin 0, Fin 0], position = [Fin 2, Fin (- 2)],
       position_kp = [NaN, NaN], position_kd = [NaN, NaN]\<rparr>
      \<lparr>obs_position = [Fin 0, Fin 0], obs_velocity = [Fin 0, Fin 0],
       obs_torque = [Fin 0, Fin 0]\<rparr>
      (Fin 1) [Fin 0, Fin 0] [Fin 1, Fin 1] [Fin 0, Fin 0]
      [Fin (- 1), Fin (- 1)] [Fin 1, Fin 1]) ! 0 = Fin 1"
  using position_command_within_limits [of 0 2
      "\<lparr>torque = [Fin 0, Fin 0], position = [Fin 2, Fin (- 2)],
       position_kp = [NaN, NaN], position_kd = [NaN, NaN]\<rparr>"
      "[Fin (- 1), Fin (- 1)]" "[Fin 1, Fin 1]"
      "\<lparr>obs_position = [Fin 0, Fin 0], obs_velocity = [Fin 0, Fin 0],
       obs_torque = [Fin 0, Fin 0]\<rparr>"
      "Fin 1" "[Fin 0, Fin 0]" "[Fin 1, Fin 1]" "[Fin 0, Fin 0]"]
  by (simp add: dgt_def)

subsection \<open>The torque\<close>

lemma isfinite_not_nan: "isfinite x \<Longrightarrow> \<not> isnan x"
  by (cases x) simp_all

lemma joint_contribution_not_nan [simp]: "\<not> isnan (joint_contribution c)"
  by (simp add: joint_contribution_def)

lemma joint_torque_finite: "isfinite t \<Longrightarrow> isfinite (joint_torque t m lo hi)"
  by (simp add: joint_torque_def)

lemma dadd_finite_not_nan: "isfinite x \<Longrightarrow> \<not> isnan y \<Longrightarrow> \<not> isnan (dadd x y)"
  by (cases x; cases y) simp_all

lemma dadd_zero_right [simp]: "dadd x (Fin 0) = x"
  by (cases x) simp_all

lemma clamp_value_bounds:
  "isfinite mx \<Longrightarrow> dle (Fin 0) mx \<Longrightarrow> \<not> isnan x \<Longrightarrow>
   isfinite (clamp_value x (dneg mx) mx) \<and>
   dle (dneg mx) (clamp_value x (dneg mx) mx) \<and> dle (clamp_value x (dneg mx) mx) mx"
  by (cases mx; cases x) (auto simp: clamp_value_def dmin_def dmax_def)

lemma dsub_dmul_finite:
  "isfinite x \<Longrightarrow> isfinite k \<Longrightarrow> isfinite v \<Longrightarrow> isfinite (dsub x (dmul k v))"
  by (cases x; cases k; cases v) (simp_all add: dsub_def)

lemma wf_position_limits:
  "wf_action n a \<Longrightarrow> wf_action n (position_limits n obs dkp dkd lo hi a)"
  by (simp add: wf_action_def position_limits_length)

lemma position_controller_length:
  "wf_action n a \<Longrightarrow> wf_observation n obs \<Longrightarrow> length dkp = n \<Longrightarrow> length dkd = n \<Longrightarrow>
   length (torque (position_controller obs dkp dkd a)) = n"
  by (simp add: position_controller_def Let_def pd_torque_def isNaN_select_def
      wf_action_def wf_observation_def)

lemma torque_after_pd_not_nan:
  assumes "i < n" "wf_action n d" "wf_observation n obs" "length dkp = n" "length dkd = n"
    and "isfinite (torque d ! i)"
  shows "\<not> isnan (torque (position_controller obs dkp dkd
            (position_limits n obs dkp dkd lo hi d)) ! i)"
proof -
  let ?a = "position_limits n obs dkp dkd lo hi d"
  have wf: "wf_action n ?a" using assms(2) by (rule wf_position_limits)
  have t: "isfinite (torque ?a ! i)"
    using assms(1,2,6) by (simp add: position_limits_torque_nth wf_action_def joint_torque_finite)
  have "torque (position_controller obs dkp dkd ?a) ! i =
     (if list_all isnan (position ?a) then torque ?a ! i
      else dadd (torque ?a ! i)
             (joint_contribution
                (joint_pd_torque (position_kp ?a ! i) (dkp ! i) (position_kd ?a ! i) (dkd ! i)
                   (position ?a ! i) (obs_position obs ! i) (obs_velocity obs ! i))))"
    using wf assms(1,3,4,5)
    by (intro position_controller_torque_nth) (simp_all add: wf_action_def wf_observation_def)
  then show ?thesis
    using t by (simp add: isfinite_not_nan dadd_finite_not_nan)
qed

text \<open>
  Claim C3.  For every joint the torque returned by \<^verbatim>\<open>process_desired_action\<close> is the
  torque after the position controller, clamped to \<open>\<plusminus>max_torque\<close>, minus
  \<open>safety_kd * velocity\<close>, clamped again; the subtraction does not depend on whether the
  position controller ran.  With a finite desired torque, damping gain, measured velocity
  and maximal torque, the maximal torque not negative, the returned torque is finite
  and lies between \<open>-max_torque\<close> and \<open>max_torque\<close>.
\<close>

theorem final_torque_clamped:
  assumes "i < N_JOINTS" and "wf_action N_JOINTS desired_action"
    and "wf_observation N_JOINTS latest_observation"
    and "length default_kp = N_JOINTS" and "length default_kd = N_JOINTS"
    and "length safety_gains = N_JOINTS"
    and "isfinite (torque desired_action ! i)"
    and "isfinite (safety_gains ! i)" and "isfinite (obs_velocity latest_observation ! i)"
    and "isfinite max_torque" and "dle (Fin 0) max_torque"
  shows "torque (process_desired_action N_JOINTS desired_action latest_observation
           max_torque safety_gains default_kp default_kd lower_limits upper_limits) ! i =
         clamp_value
           (dsub (clamp_value
                    (torque (position_controller latest_observation default_kp default_kd
                       (position_limits N_JOINTS latest_observation default_kp default_kd
                          lower_limits upper_limits desired_action)) ! i)
                    (dneg max_torque) max_torque)
                 (dmul (safety_gains ! i) (obs_velocity latest_observation ! i)))
           (dneg max_torque) max_torque \<and>
         isfinite (torque (process_desired_action N_JOINTS desired_action latest_observation
           max_torque safety_gains default_kp default_kd lower_limits upper_limits) ! i) \<and>
         dle (dneg max_torque)
           (torque (process_desired_action N_JOINTS desired_action latest_observation
              max_torque safety_gains default_kp default_kd lower_limits upper_limits) ! i) \<and>
         dle (torque (process_desired_action N_JOINTS desired_action latest_observation
              max_torque safety_gains default_kp default_kd lower_limits upper_limits) ! i)
           max_torque"
proof -
  let ?pd = "torque (position_controller latest_observation default_kp default_kd
               (position_limits N_JOINTS latest_observation default_kp default_kd
                  lower_limits upper_limits desired_action))"
  let ?damped = "dsub (clamp_value (?pd ! i) (dneg max_torque) max_torque)
                   (dmul (safety_gains ! i) (obs_velocity latest_observation ! i))"
  have len: "length ?pd = N_JOINTS"
    using assms(2-5) by (simp add: position_controller_length wf_position_limits)
  have eq: "torque (process_desired_action N_JOINTS desired_action latest_observation
             max_torque safety_gains default_kp default_kd lower_limits upper_limits) ! i =
           clamp_value ?damped (dneg max_torque) max_torque"
    using assms(1,3,6) len
    by (simp add: process_desired_action_def safety_checks_torque_nth wf_observation_def)
  have "\<not> isnan (?pd ! i)"
    using assms(1-5,7) by (rule torque_after_pd_not_nan)
  then have "isfinite (clamp_value (?pd ! i) (dneg max_torque) max_torque)"
    using clamp_value_bounds [OF assms(10,11)] by simp
  then have "isfinite ?damped"
    using assms(8,9) by (rule dsub_dmul_finite)
  then have "\<not> isnan ?damped" by (rule isfinite_not_nan)
  from clamp_value_bounds [OF assms(10,11) this] show ?thesis
    by (simp only: eq)
qed



lemma process_desired_action_torque_nth:
  assumes "i < n" "wf_action n d" "wf_observation n obs"
    "length dkp = n" "length dkd = n" "length skd = n"
  shows "torque (process_desired_action n d obs mx skd dkp dkd lo hi) ! i =
     clamp_value
       (dsub (clamp_value
                (torque (position_controller obs dkp dkd
                   (position_limits n obs dkp dkd lo hi d)) ! i) (dneg mx) mx)
             (dmul (skd ! i) (obs_velocity obs ! i)))
       (dneg mx) mx"
proof -
  have "length (torque (position_controller obs dkp dkd
          (position_limits n obs dkp dkd lo hi d))) = n"
    using assms(2-5) by (simp add: position_controller_length wf_position_limits)
  then show ?thesis
    using assms(1,3,6)
    by (simp add: process_desired_action_def safety_checks_torque_nth wf_observation_def)
qed

lemma torque_after_pd_nth:
  assumes "i < n" "wf_action n d" "wf_observation n obs" "length dkp = n" "length dkd = n"
  shows "torque (position_controller obs dkp dkd (position_limits n obs dkp dkd lo hi d)) ! i =
     (if list_all isnan (position (position_limits n obs dkp dkd lo hi d))
      then joint_torque (torque d ! i) (obs_position obs ! i) (lo ! i) (hi ! i)
      else dadd (joint_torque (torque d ! i) (obs_position obs ! i) (lo ! i) (hi ! i))
             (joint_contribution
                (joint_pd_torque
                   (joint_gain (position_kp d ! i) (dkp ! i) (obs_position obs ! i) (lo ! i) (hi ! i))
                   (dkp ! i)
                   (joint_gain (position_kd d ! i) (dkd ! i) (obs_position obs ! i) (lo ! i) (hi ! i))
                   (dkd ! i)
                   (joint_position (position d ! i) (obs_position obs ! i) (lo ! i) (hi ! i))
                   (obs_position obs ! i) (obs_velocity obs ! i))))"
proof -
  let ?a = "position_limits n obs dkp dkd lo hi d"
  have wf: "wf_action n ?a" using assms(2) by (rule wf_position_limits)
  have "torque (position_controller obs dkp dkd ?a) ! i =
     (if list_all isnan (position ?a) then torque ?a ! i
      else dadd (torque ?a ! i)
             (joint_contribution
                (joint_pd_torque (position_kp ?a ! i) (dkp ! i) (position_kd ?a ! i) (dkd ! i)
                   (position ?a ! i) (obs_position obs ! i) (obs_velocity obs ! i))))"
    using wf assms(1,3,4,5)
    by (intro position_controller_torque_nth) (simp_all add: wf_action_def wf_observation_def)
  then show ?thesis
    using assms(1,2)
    by (simp add: wf_action_def position_limits_torque_nth position_limits_kp_nth
        position_limits_kd_nth position_limits_position_nth)
qed

subsection \<open>A joint outside its limits\<close>

lemma above_not_below: "dgt m hi \<Longrightarrow> dle lo hi \<Longrightarrow> \<not> dlt m lo"
  by (cases m; cases lo; cases hi) (auto simp: dgt_def)

lemma joint_position_above:
  "dgt m hi \<Longrightarrow> dle lo hi \<Longrightarrow> dlt (joint_position p m lo hi) m"
  by (cases m; cases lo; cases hi; cases p)
     (auto simp: joint_position_def joint_clamped_position_def dgt_def)

lemma joint_position_below:
  "dlt m lo \<Longrightarrow> dle lo hi \<Longrightarrow> dlt m (joint_position p m lo hi)"
  by (cases m; cases lo; cases hi; cases p)
     (auto simp: joint_position_def joint_clamped_position_def dgt_def)

lemma joint_torque_above:
  "dgt m hi \<Longrightarrow> dle lo hi \<Longrightarrow> \<not> isnan t \<Longrightarrow> dle (joint_torque t m lo hi) (Fin 0)"
  using above_not_below [of m hi lo]
  by (cases t) (auto simp: joint_torque_def dgt_def)

lemma joint_torque_below:
  "dlt m lo \<Longrightarrow> \<not> isnan t \<Longrightarrow> dle (Fin 0) (joint_torque t m lo hi)"
  by (cases t) (auto simp: joint_torque_def dgt_def)

lemma joint_gain_outside: "dlt m lo \<or> dgt m hi \<Longrightarrow> joint_gain k d m lo hi = d"
  by (simp add: joint_gain_def)

lemma position_error_neg: "dlt p m \<Longrightarrow> dlt (dsub p m) (Fin 0)"
  by (cases p; cases m) (simp_all add: dsub_def)

lemma position_error_pos: "dlt m p \<Longrightarrow> dlt (Fin 0) (dsub p m)"
  by (cases p; cases m) (simp_all add: dsub_def)

lemma dmul_nonneg_neg:
  "dle (Fin 0) k \<Longrightarrow> dlt e (Fin 0) \<Longrightarrow> isnan (dmul k e) \<or> dle (dmul k e) (Fin 0)"
  by (cases k; cases e) (simp_all add: mult_nonneg_nonpos)

lemma dmul_nonneg_pos:
  "dle (Fin 0) k \<Longrightarrow> dlt (Fin 0) e \<Longrightarrow> isnan (dmul k e) \<or> dle (Fin 0) (dmul k e)"
  by (cases k; cases e) simp_all

lemma dmul_nonneg_nonneg:
  "dle (Fin 0) k \<Longrightarrow> dle (Fin 0) e \<Longrightarrow> isnan (dmul k e) \<or> dle (Fin 0) (dmul k e)"
  by (cases k; cases e) simp_all

lemma dmul_nonneg_nonpos:
  "dle (Fin 0) k \<Longrightarrow> dle e (Fin 0) \<Longrightarrow> isnan (dmul k e) \<or> dle (dmul k e) (Fin 0)"
  by (cases k; cases e) (simp_all add: mult_nonneg_nonpos)

lemma dsub_nonpos:
  "isnan a \<or> dle a (Fin 0) \<Longrightarrow> isnan b \<or> dle (Fin 0) b \<Longrightarrow>
   isnan (dsub a b) \<or> dle (dsub a b) (Fin 0)"
  by (cases a; cases b) (simp_all add: dsub_def)

lemma dsub_nonneg:
  "isnan a \<or> dle (Fin 0) a \<Longrightarrow> isnan b \<or> dle b (Fin 0) \<Longrightarrow>
   isnan (dsub a b) \<or> dle (Fin 0) (dsub a b)"
  by (cases a; cases b) (simp_all add: dsub_def)

lemma joint_contribution_nonpos:
  "isnan c \<or> dle c (Fin 0) \<Longrightarrow> dle (joint_contribution c) (Fin 0)"
  by (cases c) (simp_all add: joint_contribution_def)

lemma joint_contribution_nonneg:
  "isnan c \<or> dle (Fin 0) c \<Longrightarrow> dle (Fin 0) (joint_contribution c)"
  by (cases c) (simp_all add: joint_contribution_def)

lemma dadd_nonpos: "dle a (Fin 0) \<Longrightarrow> dle b (Fin 0) \<Longrightarrow> dle (dadd a b) (Fin 0)"
  by (cases a; cases b) simp_all

lemma dadd_nonneg: "dle (Fin 0) a \<Longrightarrow> dle (Fin 0) b \<Longrightarrow> dle (Fin 0) (dadd a b)"
  by (cases a; cases b) simp_all

lemma clamp_value_nonpos:
  "dle (Fin 0) mx \<Longrightarrow> dle x (Fin 0) \<Longrightarrow> dle (clamp_value x (dneg mx) mx) (Fin 0)"
  by (cases mx; cases x) (auto simp: clamp_value_def dmin_def dmax_def)

lemma clamp_value_nonneg:
  "dle (Fin 0) mx \<Longrightarrow> dle (Fin 0) x \<Longrightarrow> dle (Fin 0) (clamp_value x (dneg mx) mx)"
  by (cases mx; cases x) (auto simp: clamp_value_def dmin_def dmax_def)

lemma real_damping_nonpos: "x \<le> 0 \<Longrightarrow> 0 \<le> k \<Longrightarrow> 0 \<le> v \<Longrightarrow> x \<le> k * (v::real)"
  using mult_nonneg_nonneg [of k v] by linarith

lemma real_damping_nonneg: "0 \<le> x \<Longrightarrow> 0 \<le> k \<Longrightarrow> v \<le> 0 \<Longrightarrow> k * v \<le> (x::real)"
  using mult_nonneg_nonpos [of k v] by linarith

lemma damping_nonpos:
  "dle x (Fin 0) \<Longrightarrow> isfinite k \<Longrightarrow> isfinite v \<Longrightarrow> dle (Fin 0) k \<Longrightarrow> dle (Fin 0) v \<Longrightarrow>
   dle (dsub x (dmul k v)) (Fin 0)"
  by (cases x; cases k; cases v) (simp_all add: dsub_def real_damping_nonpos)

lemma damping_nonneg:
  "dle (Fin 0) x \<Longrightarrow> isfinite k \<Longrightarrow> isfinite v \<Longrightarrow> dle (Fin 0) k \<Longrightarrow> dle v (Fin 0) \<Longrightarrow>
   dle (Fin 0) (dsub x (dmul k v))"
  by (cases x; cases k; cases v) (simp_all add: dsub_def real_damping_nonneg)

lemma not_all_nan: "i < length xs \<Longrightarrow> \<not> isnan (xs ! i) \<Longrightarrow> \<not> list_all isnan xs"
  by (auto simp: list_all_length)

lemma dlt_not_nan: "dlt a b \<Longrightarrow> \<not> isnan a \<and> \<not> isnan b"
  by (cases a; cases b) simp_all


lemma torque_above_limit:
  assumes "i < n" "wf_action n d" "wf_observation n obs"
    "length dkp = n" "length dkd = n" "length skd = n"
    and above: "dgt (obs_position obs ! i) (hi ! i)" and interval: "dle (lo ! i) (hi ! i)"
    and t: "\<not> isnan (torque d ! i)"
    and gains: "dle (Fin 0) (dkp ! i)" "dle (Fin 0) (dkd ! i)"
  shows "dle (torque (position_limits n obs dkp dkd lo hi d) ! i) (Fin 0)"
    and "dle (Fin 0) (obs_velocity obs ! i) \<Longrightarrow>
         dle (torque (position_controller obs dkp dkd
                (position_limits n obs dkp dkd lo hi d)) ! i) (Fin 0)"
proof -
  let ?m = "obs_position obs ! i"
  let ?v = "obs_velocity obs ! i"
  let ?p = "joint_position (position d ! i) ?m (lo ! i) (hi ! i)"
  let ?t = "joint_torque (torque d ! i) ?m (lo ! i) (hi ! i)"
  have t0: "dle ?t (Fin 0)"
    using above interval t by (rule joint_torque_above)
  show "dle (torque (position_limits n obs dkp dkd lo hi d) ! i) (Fin 0)"
    using assms(1,2) t0 by (simp add: position_limits_torque_nth wf_action_def)
  assume v: "dle (Fin 0) ?v"
  have p: "dlt ?p ?m"
    using above interval by (rule joint_position_above)
  then have "\<not> isnan ?p" by (simp add: dlt_not_nan [of ?p ?m] dlt_not_nan [of ?m ?p])
  then have run: "\<not> list_all isnan (position (position_limits n obs dkp dkd lo hi d))"
    using assms(1,2)
    by (intro not_all_nan [of i])
       (simp_all add: position_limits_position_nth position_limits_length wf_action_def)
  have g: "joint_gain k dflt ?m (lo ! i) (hi ! i) = dflt" for k dflt
    using above by (simp add: joint_gain_outside)
  have e: "dlt (dsub ?p ?m) (Fin 0)"
    using p by (rule position_error_neg)
  have "isnan (dsub (dmul (dkp ! i) (dsub ?p ?m)) (dmul (dkd ! i) ?v)) \<or>
        dle (dsub (dmul (dkp ! i) (dsub ?p ?m)) (dmul (dkd ! i) ?v)) (Fin 0)"
    using dmul_nonneg_neg [OF gains(1) e] dmul_nonneg_nonneg [OF gains(2) v]
    by (rule dsub_nonpos)
  then have "dle (joint_contribution
       (joint_pd_torque (dkp ! i) (dkp ! i) (dkd ! i) (dkd ! i) ?p ?m ?v)) (Fin 0)"
    by (simp add: joint_pd_torque_def joint_contribution_nonpos)
  with t0 have "dle (dadd ?t (joint_contribution
       (joint_pd_torque (dkp ! i) (dkp ! i) (dkd ! i) (dkd ! i) ?p ?m ?v))) (Fin 0)"
    by (rule dadd_nonpos)
  then show "dle (torque (position_controller obs dkp dkd
                (position_limits n obs dkp dkd lo hi d)) ! i) (Fin 0)"
    using run by (simp add: torque_after_pd_nth [OF assms(1-5)] g)
qed

lemma torque_below_limit:
  assumes "i < n" "wf_action n d" "wf_observation n obs"
    "length dkp = n" "length dkd = n" "length skd = n"
    and below: "dlt (obs_position obs ! i) (lo ! i)" and interval: "dle (lo ! i) (hi ! i)"
    and t: "\<not> isnan (torque d ! i)"
    and gains: "dle (Fin 0) (dkp ! i)" "dle (Fin 0) (dkd ! i)"
  shows "dle (Fin 0) (torque (position_limits n obs dkp dkd lo hi d) ! i)"
    and "dle (obs_velocity obs ! i) (Fin 0) \<Longrightarrow>
         dle (Fin 0) (torque (position_controller obs dkp dkd
                (position_limits n obs dkp dkd lo hi d)) ! i)"
proof -
  let ?m = "obs_position obs ! i"
  let ?v = "obs_velocity obs ! i"
  let ?p = "joint_position (position d ! i) ?m (lo ! i) (hi ! i)"
  let ?t = "joint_torque (torque d ! i) ?m (lo ! i) (hi ! i)"
  have t0: "dle (Fin 0) ?t"
    using below t by (rule joint_torque_below)
  show "dle (Fin 0) (torque (position_limits n obs dkp dkd lo hi d) ! i)"
    using assms(1,2) t0 by (simp add: position_limits_torque_nth wf_action_def)
  assume v: "dle ?v (Fin 0)"
  have p: "dlt ?m ?p"
    using below interval by (rule joint_position_below)
  then have "\<not> isnan ?p" by (simp add: dlt_not_nan [of ?p ?m] dlt_not_nan [of ?m ?p])
  then have run: "\<not> list_all isnan (position (position_limits n obs dkp dkd lo hi d))"
    using assms(1,2)
    by (intro not_all_nan [of i])
       (simp_all add: position_limits_position_nth position_limits_length wf_action_def)
  have g: "joint_gain k dflt ?m (lo ! i) (hi ! i) = dflt" for k dflt
    using below by (simp add: joint_gain_outside)
  have e: "dlt (Fin 0) (dsub ?p ?m)"
    using p by (rule position_error_pos)
  have "isnan (dsub (dmul (dkp ! i) (dsub ?p ?m)) (dmul (dkd ! i) ?v)) \<or>
        dle (Fin 0) (dsub (dmul (dkp ! i) (dsub ?p ?m)) (dmul (dkd ! i) ?v))"
    using dmul_nonneg_pos [OF gains(1) e] dmul_nonneg_nonpos [OF gains(2) v]
    by (rule dsub_nonneg)
  then have "dle (Fin 0) (joint_contribution
       (joint_pd_torque (dkp ! i) (dkp ! i) (dkd ! i) (dkd ! i) ?p ?m ?v))"
    by (simp add: joint_pd_torque_def joint_contribution_nonneg)
  with t0 have "dle (Fin 0) (dadd ?t (joint_contribution
       (joint_pd_torque (dkp ! i) (dkp ! i) (dkd ! i) (dkd ! i) ?p ?m ?v)))"
    by (rule dadd_nonneg)
  then show "dle (Fin 0) (torque (position_controller obs dkp dkd
                (position_limits n obs dkp dkd lo hi d)) ! i)"
    using run by (simp add: torque_after_pd_nth [OF assms(1-5)] g)
qed

text \<open>
  Claim C1, as amended.  Let the limits of joint \<open>i\<close> form an interval, the default
  gains and the damping gain be non-negative, and the desired torque not NaN.  If the
  measured position exceeds the upper limit, the torque command is not positive after
  the limit loop (a torque pushing further out is discarded), and the returned torque is
  not positive whenever the measured velocity is not negative, that is, whenever the
  joint is not already moving back.  Symmetrically for a position below the lower limit.
\<close>

theorem limit_violation_torque:
  assumes "i < N_JOINTS" and "wf_action N_JOINTS desired_action"
    and "wf_observation N_JOINTS latest_observation"
    and "length default_kp = N_JOINTS" and "length default_kd = N_JOINTS"
    and "length safety_gains = N_JOINTS"
    and "dle (lower_limits ! i) (upper_limits ! i)"
    and "\<not> isnan (torque desired_action ! i)"
    and "dle (Fin 0) (default_kp ! i)" and "dle (Fin 0) (default_kd ! i)"
    and "isfinite (safety_gains ! i)" and "dle (Fin 0) (safety_gains ! i)"
    and "isfinite (obs_velocity latest_observation ! i)"
    and "dle (Fin 0) max_torque"
  shows "(dgt (obs_position latest_observation ! i) (upper_limits ! i) \<longrightarrow>
            dle (torque (position_limits N_JOINTS latest_observation default_kp default_kd
                   lower_limits upper_limits desired_action) ! i) (Fin 0) \<and>
            (dle (Fin 0) (obs_velocity latest_observation ! i) \<longrightarrow>
             dle (torque (process_desired_action N_JOINTS desired_action latest_observation
                    max_torque safety_gains default_kp default_kd
                    lower_limits upper_limits) ! i) (Fin 0))) \<and>
         (dlt (obs_position latest_observation ! i) (lower_limits ! i) \<longrightarrow>
            dle (Fin 0) (torque (position_limits N_JOINTS latest_observation default_kp
                   default_kd lower_limits upper_limits desired_action) ! i) \<and>
            (dle (obs_velocity latest_observation ! i) (Fin 0) \<longrightarrow>
             dle (Fin 0) (torque (process_desired_action N_JOINTS desired_action
                    latest_observation max_torque safety_gains default_kp default_kd
                    lower_limits upper_limits) ! i)))"
proof -
  note eq = process_desired_action_torque_nth [OF assms(1-6)]
  have up: "dle (torque (process_desired_action N_JOINTS desired_action latest_observation
                max_torque safety_gains default_kp default_kd
                lower_limits upper_limits) ! i) (Fin 0)"
    if "dgt (obs_position latest_observation ! i) (upper_limits ! i)"
      and v: "dle (Fin 0) (obs_velocity latest_observation ! i)"
  proof -
    have "dle (torque (position_controller latest_observation default_kp default_kd
            (position_limits N_JOINTS latest_observation default_kp default_kd
               lower_limits upper_limits desired_action)) ! i) (Fin 0)"
      using assms(1-6) that(1) assms(7-10) v by (rule torque_above_limit(2))
    then have "dle (clamp_value (torque (position_controller latest_observation default_kp
            default_kd (position_limits N_JOINTS latest_observation default_kp default_kd
               lower_limits upper_limits desired_action)) ! i) (dneg max_torque) max_torque)
          (Fin 0)"
      by (rule clamp_value_nonpos [OF assms(14)])
    then have "dle (dsub (clamp_value (torque (position_controller latest_observation
            default_kp default_kd (position_limits N_JOINTS latest_observation default_kp
               default_kd lower_limits upper_limits desired_action)) ! i)
             (dneg max_torque) max_torque)
           (dmul (safety_gains ! i) (obs_velocity latest_observation ! i))) (Fin 0)"
      using assms(11,13,12) v by (rule damping_nonpos)
    then show ?thesis
      unfolding eq by (rule clamp_value_nonpos [OF assms(14)])
  qed
  have down: "dle (Fin 0) (torque (process_desired_action N_JOINTS desired_action
                latest_observation max_torque safety_gains default_kp default_kd
                lower_limits upper_limits) ! i)"
    if "dlt (obs_position latest_observation ! i) (lower_limits ! i)"
      and v: "dle (obs_velocity latest_observation ! i) (Fin 0)"
  proof -
    have "dle (Fin 0) (torque (position_controller latest_observation default_kp default_kd
            (position_limits N_JOINTS latest_observation default_kp default_kd
               lower_limits upper_limits desired_action)) ! i)"
      using assms(1-6) that(1) assms(7-10) v by (rule torque_below_limit(2))
    then have "dle (Fin 0) (clamp_value (torque (position_controller latest_observation
            default_kp default_kd (position_limits N_JOINTS latest_observation default_kp
               default_kd lower_limits upper_limits desired_action)) ! i)
             (dneg max_torque) max_torque)"
      by (rule clamp_value_nonneg [OF assms(14)])
    then have "dle (Fin 0) (dsub (clamp_value (torque (position_controller latest_observation
            default_kp default_kd (position_limits N_JOINTS latest_observation default_kp
               default_kd lower_limits upper_limits desired_action)) ! i)
             (dneg max_torque) max_torque)
           (dmul (safety_gains ! i) (obs_velocity latest_observation ! i)))"
      using assms(11,13,12) v by (rule damping_nonneg)
    then show ?thesis
      unfolding eq by (rule clamp_value_nonneg [OF assms(14)])
  qed
  have up_limits: "dle (torque (position_limits N_JOINTS latest_observation default_kp
      default_kd lower_limits upper_limits desired_action) ! i) (Fin 0)"
    if "dgt (obs_position latest_observation ! i) (upper_limits ! i)"
    using assms(1-6) that assms(7-10) by (rule torque_above_limit(1))
  have down_limits: "dle (Fin 0) (torque (position_limits N_JOINTS latest_observation
      default_kp default_kd lower_limits upper_limits desired_action) ! i)"
    if "dlt (obs_position latest_observation ! i) (lower_limits ! i)"
    using assms(1-6) that assms(7-10) by (rule torque_below_limit(1))
  show ?thesis
  proof (intro conjI impI)
    assume "dgt (obs_position latest_observation ! i) (upper_limits ! i)"
    then show "dle (torque (position_limits N_JOINTS latest_observation default_kp
      default_kd lower_limits upper_limits desired_action) ! i) (Fin 0)"
      by (rule up_limits)
  next
    assume "dgt (obs_position latest_observation ! i) (upper_limits ! i)"
      and "dle (Fin 0) (obs_velocity latest_observation ! i)"
    then show "dle (torque (process_desired_action N_JOINTS desired_action latest_observation
                max_torque safety_gains default_kp default_kd
                lower_limits upper_limits) ! i) (Fin 0)"
      by (rule up)
  next
    assume "dlt (obs_position latest_observation ! i) (lower_limits ! i)"
    then show "dle (Fin 0) (torque (position_limits N_JOINTS latest_observation
      default_kp default_kd lower_limits upper_limits desired_action) ! i)"
      by (rule down_limits)
  next
    assume "dlt (obs_position latest_observation ! i) (lower_limits ! i)"
      and "dle (obs_velocity latest_observation ! i) (Fin 0)"
    then show "dle (Fin 0) (torque (process_desired_action N_JOINTS desired_action
                latest_observation max_torque safety_gains default_kp default_kd
                lower_limits upper_limits) ! i)"
      by (rule down)
  qed
qed


theorem limit_violation_torque_witness:
  "dgt (Fin 2) (Fin 1) \<and> dle (Fin 0) (Fin 4) \<and>
   dle (torque (process_desired_action 1
      \<lparr>torque = [Fin 3], position = [NaN], position_kp = [NaN], position_kd = [NaN]\<rparr>
      \<lparr>obs_position = [Fin 2], obs_velocity = [Fin 4], obs_torque = [Fin 0]\<rparr>
      (Fin 10) [Fin (1/2)] [Fin 1] [Fin 1] [Fin (- 1)] [Fin 1]) ! 0) (Fin 0) \<and>
   dlt (Fin (- 2)) (Fin (- 1)) \<and> dle (Fin (- 4)) (Fin 0) \<and>
   dle (Fin 0) (torque (process_desired_action 1
      \<lparr>torque = [Fin (- 3)], position = [NaN], position_kp = [NaN], position_kd = [NaN]\<rparr>
      \<lparr>obs_position = [Fin (- 2)], obs_velocity = [Fin (- 4)], obs_torque = [Fin 0]\<rparr>
      (Fin 10) [Fin (1/2)] [Fin 1] [Fin 1] [Fin (- 1)] [Fin 1]) ! 0)"
  using limit_violation_torque [where i = 0 and N_JOINTS = 1
      and desired_action = "\<lparr>torque = [Fin 3], position = [NaN], position_kp = [NaN],
                              position_kd = [NaN]\<rparr>"
      and latest_observation = "\<lparr>obs_position = [Fin 2], obs_velocity = [Fin 4],
                                  obs_torque = [Fin 0]\<rparr>"
      and max_torque = "Fin 10" and safety_gains = "[Fin (1/2)]"
      and default_kp = "[Fin 1]" and default_kd = "[Fin 1]"
      and lower_limits = "[Fin (- 1)]" and upper_limits = "[Fin 1]"]
    limit_violation_torque [where i = 0 and N_JOINTS = 1
      and desired_action = "\<lparr>torque = [Fin (- 3)], position = [NaN], position_kp = [NaN],
                              position_kd = [NaN]\<rparr>"
      and latest_observation = "\<lparr>obs_position = [Fin (- 2)], obs_velocity = [Fin (- 4)],
                                  obs_torque = [Fin 0]\<rparr>"
      and max_torque = "Fin 10" and safety_gains = "[Fin (1/2)]"
      and default_kp = "[Fin 1]" and default_kd = "[Fin 1]"
      and lower_limits = "[Fin (- 1)]" and upper_limits = "[Fin 1]"]
  by (simp add: wf_action_def wf_observation_def dgt_def)


text \<open>
  Claim C1 as stated fails: a joint above its upper limit that moves back fast gets a
  positive torque from the D term of the position controller and from the velocity
  damping, although its positive desired torque was discarded.
\<close>

theorem limit_violation_torque_counterexample:
  "dgt (obs_position \<lparr>obs_position = [Fin 2], obs_velocity = [Fin (- 8)],
                      obs_torque = [Fin 0]\<rparr> ! 0) ([Fin 1] ! 0) \<and>
   \<not> dle (torque (process_desired_action 1
      \<lparr>torque = [Fin 3], position = [NaN], position_kp = [NaN], position_kd = [NaN]\<rparr>
      \<lparr>obs_position = [Fin 2], obs_velocity = [Fin (- 8)], obs_torque = [Fin 0]\<rparr>
      (Fin 10) [Fin (1/2)] [Fin 1] [Fin 1] [Fin (- 1)] [Fin 1]) ! 0) (Fin 0)"
proof -
  have "process_desired_action 1
      \<lparr>torque = [Fin 3], position = [NaN], position_kp = [NaN], position_kd = [NaN]\<rparr>
      \<lparr>obs_position = [Fin 2], obs_velocity = [Fin (- 8)], obs_torque = [Fin 0]\<rparr>
      (Fin 10) [Fin (1/2)] [Fin 1] [Fin 1] [Fin (- 1)] [Fin 1] =
    \<lparr>torque = [Fin 10], position = [Fin 1], position_kp = [Fin 1], position_kd = [Fin 1]\<rparr>"
    by code_simp
  then show ?thesis by (simp add: dgt_def)
qed

theorem final_torque_clamped_witness:
  "(torque (process_desired_action 2
      \<lparr>torque = [Fin 0, Fin 0], position = [NaN, NaN],
       position_kp = [NaN, NaN], position_kd = [NaN, NaN]\<rparr>
      \<lparr>obs_position = [Fin 0, Fin 0], obs_velocity = [Fin 2, Fin (- 2)],
       obs_torque = [Fin 0, Fin 0]\<rparr>
      (Fin 1) [Fin (1/10), Fin (1/10)] [Fin 1, Fin 1] [Fin 0, Fin 0]
      [Fin (- 1), Fin (- 1)] [Fin 1, Fin 1]) ! 1 =
    clamp_value
      (dsub (clamp_value
               (torque (position_controller
                  \<lparr>obs_position = [Fin 0, Fin 0], obs_velocity = [Fin 2, Fin (- 2)],
                   obs_torque = [Fin 0, Fin 0]\<rparr> [Fin 1, Fin 1] [Fin 0, Fin 0]
                  (position_limits 2
                     \<lparr>obs_position = [Fin 0, Fin 0], obs_velocity = [Fin 2, Fin (- 2)],
                      obs_torque = [Fin 0, Fin 0]\<rparr> [Fin 1, Fin 1] [Fin 0, Fin 0]
                     [Fin (- 1), Fin (- 1)] [Fin 1, Fin 1]
                     \<lparr>torque = [Fin 0, Fin 0], position = [NaN, NaN],
                      position_kp = [NaN, NaN], position_kd = [NaN, NaN]\<rparr>)) ! 1)
               (dneg (Fin 1)) (Fin 1))
            (dmul ([Fin (1/10), Fin (1/10)] ! 1)
               (obs_velocity \<lparr>obs_position = [Fin 0, Fin 0],
                  obs_velocity = [Fin 2, Fin (- 2)], obs_torque = [Fin 0, Fin 0]\<rparr> ! 1)))
      (dneg (Fin 1)) (Fin 1) \<and>
    isfinite (torque (process_desired_action 2
      \<lparr>torque = [Fin 0, Fin 0], position = [NaN, NaN],
       position_kp = [NaN, NaN], position_kd = [NaN, NaN]\<rparr>
      \<lparr>obs_position = [Fin 0, Fin 0], obs_velocity = [Fin 2, Fin (- 2)],
       obs_torque = [Fin 0, Fin 0]\<rparr>
      (Fin 1) [Fin (1/10), Fin (1/10)] [Fin 1, Fin 1] [Fin 0, Fin 0]
      [Fin (- 1), Fin (- 1)] [Fin 1, Fin 1]) ! 1) \<and>
    dle (dneg (Fin 1)) (torque (process_desired_action 2
      \<lparr>torque = [Fin 0, Fin 0], position = [NaN, NaN],
       position_kp = [NaN, NaN], position_kd = [NaN, NaN]\<rparr>
      \<lparr>obs_position = [Fin 0, Fin 0], obs_velocity = [Fin 2, Fin (- 2)],
       obs_torque = [Fin 0, Fin 0]\<rparr>
      (Fin 1) [Fin (1/10), Fin (1/10)] [Fin 1, Fin 1] [Fin 0, Fin 0]
      [Fin (- 1), Fin (- 1)] [Fin 1, Fin 1]) ! 1) \<and>
    dle (torque (process_desired_action 2
      \<lparr>torque = [Fin 0, Fin 0], position = [NaN, NaN],
       position_kp = [NaN, NaN], position_kd = [NaN, NaN]\<rparr>
      \<lparr>obs_position = [Fin 0, Fin 0], obs_velocity = [Fin 2, Fin (- 2)],
       obs_torque = [Fin 0, Fin 0]\<rparr>
      (Fin 1) [Fin (1/10), Fin (1/10)] [Fin 1, Fin 1] [Fin 0, Fin 0]
      [Fin (- 1), Fin (- 1)] [Fin 1, Fin 1]) ! 1) (Fin 1)) \<and>
   torque (process_desired_action 2
      \<lparr>torque = [Fin 0, Fin 0], position = [NaN, NaN],
       position_kp = [NaN, NaN], position_kd = [NaN, NaN]\<rparr>
      \<lparr>obs_position = [Fin 0, Fin 0], obs_velocity = [Fin 2, Fin (- 2)],
       obs_torque = [Fin 0, Fin 0]\<rparr>
      (Fin 1) [Fin (1/10), Fin (1/10)] [Fin 1, Fin 1] [Fin 0, Fin 0]
      [Fin (- 1), Fin (- 1)] [Fin 1, Fin 1]) = [Fin (- (1/5)), Fin (1/5)]"
proof (rule conjI)
  show "torque (process_desired_action 2
      \<lparr>torque = [Fin 0, Fin 0], position = [NaN, NaN],
       position_kp = [NaN, NaN], position_kd = [NaN, NaN]\<rparr>
      \<lparr>obs_position = [Fin 0, Fin 0], obs_velocity = [Fin 2, Fin (- 2)],
       obs_torque = [Fin 0, Fin 0]\<rparr>
      (Fin 1) [Fin (1/10), Fin (1/10)] [Fin 1, Fin 1] [Fin 0, Fin 0]
      [Fin (- 1), Fin (- 1)] [Fin 1, Fin 1]) = [Fin (- (1/5)), Fin (1/5)]"
    by code_simp
qed (rule final_torque_clamped, simp_all add: wf_action_def wf_observation_def)

lemma dmul_NaN_right [simp]: "dmul x NaN = NaN"
  by (cases x) simp_all

lemma dadd_NaN_right [simp]: "dadd x NaN = NaN"
  by (cases x) simp_all

lemma joint_pd_torque_NaN_target:
  "isnan target \<Longrightarrow> joint_contribution (joint_pd_torque k_p d_p k_d d_d target m v) = Fin 0"
  by (cases target) (simp_all add: joint_pd_torque_def joint_contribution_def dsub_def)

lemma position_controller_idle:
  "list_all isnan (position a) \<Longrightarrow> position_controller obs dkp dkd a = a"
  by (simp add: position_controller_def)

lemma position_controller_gains_nth:
  assumes "i < length (position_kp a)" "i < length (position_kd a)"
    "i < length dkp" "i < length dkd" "\<not> list_all isnan (position a)"
  shows "position_kp (position_controller obs dkp dkd a) ! i =
           (if isnan (position_kp a ! i) then dkp ! i else position_kp a ! i)"
    and "position_kd (position_controller obs dkp dkd a) ! i =
           (if isnan (position_kd a ! i) then dkd ! i else position_kd a ! i)"
  using assms by (simp_all add: position_controller_def Let_def isNaN_select_def)

text \<open>
  Claim C4.  With \<open>a\<close> the action after the limit loop: the position controller leaves
  \<open>a\<close> as it is when every position target is NaN; otherwise it replaces NaN gains by
  the defaults and adds, for every joint, \<open>kp * (target - position) - kd * velocity\<close> to
  the torque, with zero in place of a NaN result.  A joint with a NaN target keeps its
  torque, and no NaN reaches a finite torque command.
\<close>

theorem position_controller_adds_pd_torque:
  assumes "i < N_JOINTS" and "wf_action N_JOINTS desired_action"
    and "wf_observation N_JOINTS latest_observation"
    and "length default_kp = N_JOINTS" and "length default_kd = N_JOINTS"
  shows
    "(let a = position_limits N_JOINTS latest_observation default_kp default_kd
                lower_limits upper_limits desired_action;
          a' = position_controller latest_observation default_kp default_kd a;
          k_p = (if isnan (position_kp a ! i) then default_kp ! i else position_kp a ! i);
          k_d = (if isnan (position_kd a ! i) then default_kd ! i else position_kd a ! i);
          c = dsub (dmul k_p (dsub (position a ! i) (obs_position latest_observation ! i)))
                   (dmul k_d (obs_velocity latest_observation ! i))
      in process_desired_action N_JOINTS desired_action latest_observation max_torque
           safety_gains default_kp default_kd lower_limits upper_limits =
           safety_checks latest_observation max_torque safety_gains a' \<and>
         (if list_all isnan (position a) then a' = a
          else torque a' ! i = dadd (torque a ! i) (if isnan c then Fin 0 else c) \<and>
               position_kp a' ! i = k_p \<and> position_kd a' ! i = k_d) \<and>
         (isnan (position a ! i) \<longrightarrow> torque a' ! i = torque a ! i) \<and>
         (isfinite (torque a ! i) \<longrightarrow> \<not> isnan (torque a' ! i)))"
proof -
  let ?a = "position_limits N_JOINTS latest_observation default_kp default_kd
              lower_limits upper_limits desired_action"
  let ?a' = "position_controller latest_observation default_kp default_kd ?a"
  let ?c = "joint_pd_torque (position_kp ?a ! i) (default_kp ! i) (position_kd ?a ! i)
              (default_kd ! i) (position ?a ! i) (obs_position latest_observation ! i)
              (obs_velocity latest_observation ! i)"
  have wf: "wf_action N_JOINTS ?a" using assms(2) by (rule wf_position_limits)
  have t: "torque ?a' ! i =
     (if list_all isnan (position ?a) then torque ?a ! i
      else dadd (torque ?a ! i) (joint_contribution ?c))"
    using wf assms(1,3,4,5)
    by (intro position_controller_torque_nth) (simp_all add: wf_action_def wf_observation_def)
  have idle: "list_all isnan (position ?a) \<Longrightarrow> ?a' = ?a"
    by (rule position_controller_idle)
  have gains: "\<not> list_all isnan (position ?a) \<Longrightarrow>
      position_kp ?a' ! i = (if isnan (position_kp ?a ! i) then default_kp ! i
                             else position_kp ?a ! i) \<and>
      position_kd ?a' ! i = (if isnan (position_kd ?a ! i) then default_kd ! i
                             else position_kd ?a ! i)"
    using wf assms(1,4,5) position_controller_gains_nth [of i ?a default_kp default_kd]
    by (simp add: wf_action_def)
  have nan_target: "isnan (position ?a ! i) \<Longrightarrow> torque ?a' ! i = torque ?a ! i"
    by (simp add: t joint_pd_torque_NaN_target)
  have no_nan: "isfinite (torque ?a ! i) \<Longrightarrow> \<not> isnan (torque ?a' ! i)"
    by (simp add: t dadd_finite_not_nan isfinite_not_nan)
  have c: "joint_contribution ?c =
      (if isnan ?c then Fin 0 else ?c)"
    by (simp add: joint_contribution_def)
  show ?thesis
    unfolding Let_def
  proof (intro conjI impI)
    show "process_desired_action N_JOINTS desired_action latest_observation max_torque
           safety_gains default_kp default_kd lower_limits upper_limits =
           safety_checks latest_observation max_torque safety_gains ?a'"
      by (simp add: process_desired_action_def)
  next
    show "if list_all isnan (position ?a) then ?a' = ?a
          else torque ?a' ! i = dadd (torque ?a ! i)
                 (if isnan (dsub (dmul (if isnan (position_kp ?a ! i) then default_kp ! i
                                        else position_kp ?a ! i)
                                   (dsub (position ?a ! i) (obs_position latest_observation ! i)))
                             (dmul (if isnan (position_kd ?a ! i) then default_kd ! i
                                    else position_kd ?a ! i)
                                   (obs_velocity latest_observation ! i)))
                  then Fin 0
                  else dsub (dmul (if isnan (position_kp ?a ! i) then default_kp ! i
                                   else position_kp ?a ! i)
                              (dsub (position ?a ! i) (obs_position latest_observation ! i)))
                        (dmul (if isnan (position_kd ?a ! i) then default_kd ! i
                               else position_kd ?a ! i)
                              (obs_velocity latest_observation ! i))) \<and>
               position_kp ?a' ! i = (if isnan (position_kp ?a ! i) then default_kp ! i
                                      else position_kp ?a ! i) \<and>
               position_kd ?a' ! i = (if isnan (position_kd ?a ! i) then default_kd ! i
                                      else position_kd ?a ! i)"
    proof (cases "list_all isnan (position ?a)")
      case True
      then show ?thesis using idle by simp
    next
      case False
      have "torque ?a' ! i = dadd (torque ?a ! i) (if isnan ?c then Fin 0 else ?c)"
        using False by (simp only: t c if_False)
      then show ?thesis
        using False gains by (simp only: joint_pd_torque_def if_False simp_thms)
    qed
  next
    assume "isnan (position ?a ! i)"
    then show "torque ?a' ! i = torque ?a ! i" by (rule nan_target)
  next
    assume "isfinite (torque ?a ! i)"
    then show "\<not> isnan (torque ?a' ! i)" by (rule no_nan)
  qed
qed

theorem position_controller_adds_pd_torque_witness:
  "isnan (position (position_limits 2
      \<lparr>obs_position = [Fin 0, Fin 0], obs_velocity = [Fin 0, Fin 0],
       obs_torque = [Fin 0, Fin 0]\<rparr> [Fin 3, Fin 3] [Fin 0, Fin 0] [MInf, MInf] [PInf, PInf]
      \<lparr>torque = [Fin 0, Fin 2], position = [Fin 1, NaN],
       position_kp = [NaN, NaN], position_kd = [NaN, NaN]\<rparr>) ! 1) \<and>
   isfinite (torque (position_limits 2
      \<lparr>obs_position = [Fin 0, Fin 0], obs_velocity = [Fin 0, Fin 0],
       obs_torque = [Fin 0, Fin 0]\<rparr> [Fin 3, Fin 3] [Fin 0, Fin 0] [MInf, MInf] [PInf, PInf]
      \<lparr>torque = [Fin 0, Fin 2], position = [Fin 1, NaN],
       position_kp = [NaN, NaN], position_kd = [NaN, NaN]\<rparr>) ! 1) \<and>
   torque (position_controller
      \<lparr>obs_position = [Fin 0, Fin 0], obs_velocity = [Fin 0, Fin 0],
       obs_torque = [Fin 0, Fin 0]\<rparr> [Fin 3, Fin 3] [Fin 0, Fin 0]
      (position_limits 2
         \<lparr>obs_position = [Fin 0, Fin 0], obs_velocity = [Fin 0, Fin 0],
          obs_torque = [Fin 0, Fin 0]\<rparr> [Fin 3, Fin 3] [Fin 0, Fin 0] [MInf, MInf]
         [PInf, PInf]
         \<lparr>torque = [Fin 0, Fin 2], position = [Fin 1, NaN],
          position_kp = [NaN, NaN], position_kd = [NaN, NaN]\<rparr>)) = [Fin 3, Fin 2]"
proof -
  have limits: "position_limits 2
      \<lparr>obs_position = [Fin 0, Fin 0], obs_velocity = [Fin 0, Fin 0],
       obs_torque = [Fin 0, Fin 0]\<rparr> [Fin 3, Fin 3] [Fin 0, Fin 0] [MInf, MInf] [PInf, PInf]
      \<lparr>torque = [Fin 0, Fin 2], position = [Fin 1, NaN],
       position_kp = [NaN, NaN], position_kd = [NaN, NaN]\<rparr> =
      \<lparr>torque = [Fin 0, Fin 2], position = [Fin 1, NaN],
       position_kp = [NaN, NaN], position_kd = [NaN, NaN]\<rparr>"
    by code_simp
  have controller: "position_controller
      \<lparr>obs_position = [Fin 0, Fin 0], obs_velocity = [Fin 0, Fin 0],
       obs_torque = [Fin 0, Fin 0]\<rparr> [Fin 3, Fin 3] [Fin 0, Fin 0]
      \<lparr>torque = [Fin 0, Fin 2], position = [Fin 1, NaN],
       position_kp = [NaN, NaN], position_kd = [NaN, NaN]\<rparr> =
      \<lparr>torque = [Fin 3, Fin 2], position = [Fin 1, NaN],
       position_kp = [Fin 3, Fin 3], position_kd = [Fin 0, Fin 0]\<rparr>"
    by code_simp
  show ?thesis
    using position_controller_adds_pd_torque [where i = 1 and N_JOINTS = 2
      and desired_action = "\<lparr>torque = [Fin 0, Fin 2], position = [Fin 1, NaN],
                              position_kp = [NaN, NaN], position_kd = [NaN, NaN]\<rparr>"
      and latest_observation = "\<lparr>obs_position = [Fin 0, Fin 0],
                                  obs_velocity = [Fin 0, Fin 0],
                                  obs_torque = [Fin 0, Fin 0]\<rparr>"
      and default_kp = "[Fin 3, Fin 3]" and default_kd = "[Fin 0, Fin 0]"
      and lower_limits = "[MInf, MInf]" and upper_limits = "[PInf, PInf]"]
    by (simp add: limits controller wf_action_def wf_observation_def)
qed

section \<open>Verification of the driver\<close>

subsection \<open>Applying actions\<close>

lemma applied_action_frame [simp]:
  "applied_action hw (s\<lparr>reads := r\<rparr>) = applied_action hw s"
  "applied_action hw (s\<lparr>commands := c\<rparr>) = applied_action hw s"
  "applied_action hw (s\<lparr>action_counter := k\<rparr>) = applied_action hw s"
  "applied_action hw (s\<lparr>messages := m\<rparr>) = applied_action hw s"
  "applied_action hw (s\<lparr>files := f\<rparr>) = applied_action hw s"
  by (simp_all add: applied_action_def fun_eq_iff)

lemma apply_action_uninitialized_eq:
  "apply_action_uninitialized hw desired_action s =
     (applied_action hw s (reads s) desired_action,
      s\<lparr>reads := reads s + 1,
        commands := commands s @
          [SendTorques (torque (applied_action hw s (reads s) desired_action))],
        action_counter := action_counter s + 1\<rparr>)"
  by (simp add: apply_action_uninitialized_def get_latest_observation_def applied_action_def
      Let_def)

lemma apply_loop:
  "foldl (\<lambda>s t. snd (apply_action_uninitialized hw (g (n_joints s) t) s)) s [0..<k] =
     s\<lparr>reads := reads s + k,
       commands := commands s @ torque_commands hw s (reads s) 0 (g (n_joints s)) k,
       action_counter := action_counter s + k\<rparr>"
proof (induction k)
  case 0
  show ?case by (simp add: torque_commands_def)
next
  case (Suc k)
  have "foldl (\<lambda>s t. snd (apply_action_uninitialized hw (g (n_joints s) t) s)) s [0..<Suc k] =
      snd (apply_action_uninitialized hw (g (n_joints s) k)
        (s\<lparr>reads := reads s + k,
           commands := commands s @ torque_commands hw s (reads s) 0 (g (n_joints s)) k,
           action_counter := action_counter s + k\<rparr>))"
    by (simp add: Suc)
  then show ?case
    by (simp add: apply_action_uninitialized_eq torque_commands_def)
qed

lemma move_to_position_eq:
  "move_to_position hw goal_pos tolerance time_steps s =
     (list_all (\<lambda>e. dlt (dabs e) tolerance)
        (map2 dsub goal_pos (obs_position (sensor hw (reads s + time_steps + 1)))),
      s\<lparr>reads := reads s + time_steps + 2,
        commands := commands s @
          torque_commands hw s (reads s + 1) 0 (position_targets hw s goal_pos time_steps)
            time_steps,
        action_counter := action_counter s + time_steps\<rparr>)"
proof -
  let ?g = "\<lambda>n t. Action_Position n
              (step_goal (obs_position (sensor hw (reads s))) goal_pos time_steps t)"
  have loop: "foldl (\<lambda>s' t. snd (apply_action_uninitialized hw (?g (n_joints s') t) s'))
                (s\<lparr>reads := Suc (reads s)\<rparr>) [0..<time_steps] =
      s\<lparr>reads := reads s + 1 + time_steps,
        commands := commands s @
          torque_commands hw s (reads s + 1) 0 (?g (n_joints s)) time_steps,
        action_counter := action_counter s + time_steps\<rparr>"
    by (simp add: apply_loop [where g = ?g] torque_commands_def)
  show ?thesis
    by (simp add: move_to_position_def get_latest_observation_def Let_def loop
        position_targets_def [abs_def] add.commute add.left_commute)
qed


subsection \<open>The minimum jerk trajectory\<close>

lemma dpow_Fin [simp]: "dpow (Fin x) k = Fin (x ^ k)"
  by (cases k) simp_all

lemma step_goal_nth:
  assumes "j < length initial_position" "j < length goal_pos"
  shows "step_goal initial_position goal_pos time_steps t ! j =
     dadd (initial_position ! j)
       (dmul (dsub (goal_pos ! j) (initial_position ! j))
          (dadd (dsub (dmul (Fin 10) (dpow (ddiv (Fin (real t)) (Fin (real time_steps))) 3))
                      (dmul (Fin 15) (dpow (ddiv (Fin (real t)) (Fin (real time_steps))) 4)))
                (dmul (Fin 6) (dpow (ddiv (Fin (real t)) (Fin (real time_steps))) 5))))"
  using assms by (simp add: step_goal_def Let_def)

lemma step_goal_finite:
  assumes "j < length initial_position" "j < length goal_pos" "t < time_steps"
    and "initial_position ! j = Fin a" "goal_pos ! j = Fin b"
  shows "step_goal initial_position goal_pos time_steps t ! j =
     Fin (a + (b - a) * blend (real t / real time_steps))"
  using assms by (simp add: step_goal_nth dsub_def blend_def)

lemma blend_ends: "blend 0 = 0" "blend 1 = 1"
  by (simp_all add: blend_def)

lemma list_all_map2_nth:
  "length xs = n \<Longrightarrow> length ys = n \<Longrightarrow>
   list_all P (map2 f xs ys) = (\<forall>j<n. P (f (xs ! j) (ys ! j)))"
  by (auto simp: list_all_length)

text \<open>
  Claim C7.  \<^verbatim>\<open>move_to_position\<close> sends, for \<open>t = 0, \<dots>, time_steps - 1\<close> in
  this order, the torques obtained from the position target of step \<open>t\<close>, whose entry
  for a joint with finite start \<open>a\<close> and goal \<open>b\<close> is \<open>a + (b - a) * blend (t / time_steps)\<close>
  with \<open>blend \<alpha> = 10\<alpha>\<^sup>3 - 15\<alpha>\<^sup>4 + 6\<alpha>\<^sup>5\<close>.  The target of step \<open>0\<close> is the start, the
  blend at \<open>\<alpha> = 1\<close> gives the goal, and the result is true exactly when, in the
  observation read after the last step, every joint is closer to the goal than the
  tolerance.
\<close>

theorem move_to_position_minimum_jerk:
  assumes "length goal_pos = n"
    and "length (obs_position (sensor hw (reads s))) = n"
    and "length (obs_position (sensor hw (reads s + time_steps + 1))) = n"
    and "j < n" and "t < time_steps"
    and "obs_position (sensor hw (reads s)) ! j = Fin a" and "goal_pos ! j = Fin b"
  shows "commands (snd (move_to_position hw goal_pos tolerance time_steps s)) =
           commands s @
           map (\<lambda>t. SendTorques (torque (applied_action hw s (reads s + 1 + t)
                  (Action_Position (n_joints s)
                     (step_goal (obs_position (sensor hw (reads s))) goal_pos time_steps t)))))
             [0..<time_steps] \<and>
         step_goal (obs_position (sensor hw (reads s))) goal_pos time_steps t ! j =
           Fin (a + (b - a) * blend (real t / real time_steps)) \<and>
         blend (real t / real time_steps) =
           10 * (real t / real time_steps) ^ 3 - 15 * (real t / real time_steps) ^ 4
             + 6 * (real t / real time_steps) ^ 5 \<and>
         step_goal (obs_position (sensor hw (reads s))) goal_pos time_steps 0 ! j =
           obs_position (sensor hw (reads s)) ! j \<and>
         Fin (a + (b - a) * blend 1) = goal_pos ! j \<and>
         fst (move_to_position hw goal_pos tolerance time_steps s) =
           (\<forall>i<n. dlt (dabs (dsub (goal_pos ! i)
                      (obs_position (sensor hw (reads s + time_steps + 1)) ! i))) tolerance)"
proof -
  have steps: "0 < time_steps" using assms(5) by simp
  have "step_goal (obs_position (sensor hw (reads s))) goal_pos time_steps t ! j =
      Fin (a + (b - a) * blend (real t / real time_steps))"
    using assms by (intro step_goal_finite) simp_all
  moreover have "step_goal (obs_position (sensor hw (reads s))) goal_pos time_steps 0 ! j =
      obs_position (sensor hw (reads s)) ! j"
    using step_goal_finite [of j "obs_position (sensor hw (reads s))" goal_pos 0 time_steps a b]
      assms steps
    by (simp add: blend_ends)
  moreover have "commands (snd (move_to_position hw goal_pos tolerance time_steps s)) =
           commands s @
           map (\<lambda>t. SendTorques (torque (applied_action hw s (reads s + 1 + t)
                  (Action_Position (n_joints s)
                     (step_goal (obs_position (sensor hw (reads s))) goal_pos time_steps t)))))
             [0..<time_steps]"
    by (simp add: move_to_position_eq torque_commands_def position_targets_def)
  moreover have "fst (move_to_position hw goal_pos tolerance time_steps s) =
           (\<forall>i<n. dlt (dabs (dsub (goal_pos ! i)
                      (obs_position (sensor hw (reads s + time_steps + 1)) ! i))) tolerance)"
    using list_all_map2_nth [OF assms(1,3),
        of "\<lambda>e. dlt (dabs e) tolerance" dsub]
    by (simp add: move_to_position_eq)
  ultimately show ?thesis
    using assms(7) by (simp add: blend_ends blend_def)
qed



theorem move_to_position_minimum_jerk_witness:
  "step_goal [Fin 0, Fin 0] [Fin 1, Fin 1] 2 1 ! 0 = Fin (1 / 2) \<and>
   step_goal [Fin 0, Fin 0] [Fin 1, Fin 1] 2 0 ! 0 = Fin 0 \<and>
   \<not> fst (move_to_position example_hardware [Fin 1, Fin 1] (Fin (1 / 10)) 2 example_driver) \<and>
   commands (snd (move_to_position example_hardware [Fin 1, Fin 1] (Fin (1 / 10)) 2
      example_driver)) = [SendTorques [Fin 0, Fin 0], SendTorques [Fin (1 / 2), Fin (1 / 2)]]"
proof -
  have a: "applied_action example_hardware example_driver r
             (Action_Position 2 (step_goal [Fin 0, Fin 0] [Fin 1, Fin 1] 2 t)) =
           process_desired_action 2
             (Action_Position 2 (step_goal [Fin 0, Fin 0] [Fin 1, Fin 1] 2 t)) still (Fin 1)
             [Fin (1 / 2), Fin (1 / 2)] [Fin 1, Fin 1] [Fin 0, Fin 0] [MInf, MInf] [PInf, PInf]"
    for r t
    by (simp add: applied_action_def example_hardware_def example_driver_def example_config_def
        numeral_2_eq_2)
  have t0: "torque (process_desired_action 2
             (Action_Position 2 (step_goal [Fin 0, Fin 0] [Fin 1, Fin 1] 2 0)) still (Fin 1)
             [Fin (1 / 2), Fin (1 / 2)] [Fin 1, Fin 1] [Fin 0, Fin 0] [MInf, MInf] [PInf, PInf]) =
           [Fin 0, Fin 0]"
    by code_simp
  have t1: "torque (process_desired_action 2
             (Action_Position 2 (step_goal [Fin 0, Fin 0] [Fin 1, Fin 1] 2 (Suc 0))) still (Fin 1)
             [Fin (1 / 2), Fin (1 / 2)] [Fin 1, Fin 1] [Fin 0, Fin 0] [MInf, MInf] [PInf, PInf]) =
           [Fin (1 / 2), Fin (1 / 2)]"
    by code_simp
  have r: "reads example_driver = 0" "n_joints example_driver = 2"
      "commands example_driver = []"
    by (simp_all add: example_driver_def)
  have o: "obs_position (sensor example_hardware k) = [Fin 0, Fin 0]" for k
    by (simp add: example_hardware_def still_def)
  have far: "\<not> (\<forall>i<2. dlt (dabs (dsub ([Fin 1, Fin 1] ! i) ([Fin 0, Fin 0] ! i)))
                     (Fin (1 / 10)))"
    by (auto simp: dsub_def intro!: exI [of _ 0])
  note th = move_to_position_minimum_jerk [where hw = example_hardware and s = example_driver
        and goal_pos = "[Fin 1, Fin 1]" and n = 2 and time_steps = 2 and j = 0
        and a = 0 and b = 1 and tolerance = "Fin (1 / 10)", unfolded r o]
  have c1: "step_goal [Fin 0, Fin 0] [Fin 1, Fin 1] 2 1 ! 0 = Fin (1 / 2)"
    using th [of 1] by (simp add: blend_def power_divide)
  have c2: "step_goal [Fin 0, Fin 0] [Fin 1, Fin 1] 2 0 ! 0 = Fin 0"
    using th [of 1] by simp
  have c3: "\<not> fst (move_to_position example_hardware [Fin 1, Fin 1] (Fin (1 / 10)) 2
                   example_driver)"
    using th [of 1] far by simp
  have c4: "commands (snd (move_to_position example_hardware [Fin 1, Fin 1] (Fin (1 / 10)) 2
      example_driver)) = [SendTorques [Fin 0, Fin 0], SendTorques [Fin (1 / 2), Fin (1 / 2)]]"
    using th [of 1] by (simp add: a t0 t1 upt_rec)
  from c1 c2 c3 c4 show ?thesis by (intro conjI)
qed

end
